theory Spec2Isabelle
  imports Main "HOL-Library.Sublist"
begin

text \<open>
  A model of the two halves of the auto-archiver that talk to each other: the Google Drive
  storage, which resolves a slash-separated key to a chain of folder ids through a cache
  and a bounded retry loop, and the two archivers, which fetch a media file, put it into
  a storage and describe the outcome. Exceptions are values, the instance state and the
  calls issued to the outside are passed along explicitly, and everything outside the
  four source files (the Drive client, the storage behind an archiver, the extractors,
  the helpers of the base archiver) is a parameter that can return or raise.
\<close>

section \<open>Python values, exceptions and effectful programs\<close>

text \<open>
  The exceptions that the modelled code raises itself or names in an \<^verbatim>\<open>except\<close> clause,
  and two classes of foreign exceptions: \<open>OtherException\<close> stands for any other subclass of
  Python's \<^verbatim>\<open>Exception\<close> (transport, authentication and remote-service failures of a
  collaborator), \<open>KeyboardInterrupt\<close> for an exception outside \<^verbatim>\<open>Exception\<close>, which
  only a bare \<^verbatim>\<open>except:\<close> catches.
\<close>

datatype exn =
    ValueError string
  | KeyError string
  | IndexError string
  | AttributeError string
  | NameError string
  | FileNotFoundError string
  | DownloadError string
  | InvalidUrl string
  | OtherException string
  | KeyboardInterrupt

fun is_Exception :: "exn \<Rightarrow> bool" where
  "is_Exception KeyboardInterrupt = False"
| "is_Exception _ = True"

text \<open>
  A program over a state \<open>'s\<close> either raises (\<open>Inl\<close>) or returns (\<open>Inr\<close>), and in both
  cases hands back the state it has reached.
\<close>

type_synonym ('s, 'a) prog = "'s \<Rightarrow> (exn + 'a) \<times> 's"

definition ret :: "'a \<Rightarrow> ('s, 'a) prog" where
  "ret x s = (Inr x, s)"

definition raise :: "exn \<Rightarrow> ('s, 'a) prog" where
  "raise e s = (Inl e, s)"

definition bind :: "('s, 'a) prog \<Rightarrow> ('a \<Rightarrow> ('s, 'b) prog) \<Rightarrow> ('s, 'b) prog" where
  "bind m f s = (case m s of (Inl e, s1) \<Rightarrow> (Inl e, s1) | (Inr x, s1) \<Rightarrow> f x s1)"

text \<open>
  \<^verbatim>\<open>try: m  except A: ...  except B: ...\<close> with the clauses in order; each clause is
  the test of what it catches and its handler. An exception that no clause catches goes on.
\<close>

fun handle :: "((exn \<Rightarrow> bool) \<times> (exn \<Rightarrow> ('s, 'a) prog)) list \<Rightarrow> exn \<Rightarrow> ('s, 'a) prog" where
  "handle [] e = raise e"
| "handle ((catches, handler) # clauses) e = (if catches e then handler e else handle clauses e)"

definition try_except :: "('s, 'a) prog \<Rightarrow> ((exn \<Rightarrow> bool) \<times> (exn \<Rightarrow> ('s, 'a) prog)) list \<Rightarrow> ('s, 'a) prog" where
  "try_except m clauses s =
     (case m s of
        (Inl e, s1) \<Rightarrow> handle clauses e s1
      | (Inr x, s1) \<Rightarrow> (Inr x, s1))"

text \<open>What the clauses of the code catch: a bare \<^verbatim>\<open>except:\<close> everything,
  \<^verbatim>\<open>except Exception\<close> the subclasses of \<^verbatim>\<open>Exception\<close>, the others one class.\<close>

definition anything :: "exn \<Rightarrow> bool" where
  "anything e = True"

fun is_DownloadError :: "exn \<Rightarrow> bool" where
  "is_DownloadError (DownloadError m) = True"
| "is_DownloadError _ = False"

fun is_InvalidUrl :: "exn \<Rightarrow> bool" where
  "is_InvalidUrl (InvalidUrl m) = True"
| "is_InvalidUrl _ = False"

fun is_FileNotFoundError :: "exn \<Rightarrow> bool" where
  "is_FileNotFoundError (FileNotFoundError m) = True"
| "is_FileNotFoundError _ = False"

text \<open>The result of a collaborator, as a program that leaves the state alone.\<close>

definition lift :: "exn + 'a \<Rightarrow> ('s, 'a) prog" where
  "lift r s = (r, s)"

text \<open>\<^verbatim>\<open>sub in s\<close> on strings.\<close>

fun contains :: "string \<Rightarrow> string \<Rightarrow> bool" where
  "contains sub [] = (sub = [])"
| "contains sub (x # xs) = (prefix sub (x # xs) \<or> contains sub xs)"

text \<open>Python's \<^verbatim>\<open>str\<close> of the values that the f-strings of the code format.\<close>

fun py_str_opt :: "string option \<Rightarrow> string" where
  "py_str_opt None = ''None''"
| "py_str_opt (Some x) = x"

fun py_str_bool :: "bool \<Rightarrow> string" where
  "py_str_bool True = ''True''"
| "py_str_bool False = ''False''"

definition digit_char :: "nat \<Rightarrow> char" where
  "digit_char d = ''0123456789'' ! d"

fun py_str_nat :: "nat \<Rightarrow> string" where
  "py_str_nat n = (if n < 10 then [digit_char n] else py_str_nat (n div 10) @ [digit_char (n mod 10)])"

definition py_str_int :: "int \<Rightarrow> string" where
  "py_str_int i = (if i < 0 then CHR ''-'' # py_str_nat (nat (- i)) else py_str_nat (nat i))"

text \<open>
  \<^verbatim>\<open>repr\<close> of a string or \<^verbatim>\<open>None\<close>, as \<^verbatim>\<open>{name=}\<close> prints it. A string is read as
  a sequence of code points below 256. Python quotes it with apostrophes, or with double
  quotes when it holds an apostrophe and no double quote; it escapes the backslash, the
  quote in use, tab, newline and carriage return, and writes every other code point that
  is not printable as \<^verbatim>\<open>\xNN\<close>.
\<close>

definition hex_digit :: "nat \<Rightarrow> char" where
  "hex_digit d = ''0123456789abcdef'' ! d"

definition printable :: "char \<Rightarrow> bool" where
  "printable c =
     (let n = (of_char c :: nat) in
      (32 \<le> n \<and> n \<le> 126) \<or> (161 \<le> n \<and> n \<noteq> 173))"

definition repr_char :: "char \<Rightarrow> char \<Rightarrow> string" where
  "repr_char quote c =
     (if c = CHR 0x5C then [CHR 0x5C, CHR 0x5C]
      else if c = quote then [CHR 0x5C, quote]
      else if c = CHR 0x09 then [CHR 0x5C, CHR ''t'']
      else if c = CHR 0x0A then [CHR 0x5C, CHR ''n'']
      else if c = CHR 0x0D then [CHR 0x5C, CHR ''r'']
      else if printable c then [c]
      else [CHR 0x5C, CHR ''x'', hex_digit ((of_char c :: nat) div 16), hex_digit ((of_char c :: nat) mod 16)])"

definition py_repr :: "string \<Rightarrow> string" where
  "py_repr x =
     (let quote = (if CHR 0x27 \<in> set x \<and> CHR 0x22 \<notin> set x then CHR 0x22 else CHR 0x27)
      in [quote] @ concat (map (repr_char quote) x) @ [quote])"

fun py_repr_opt :: "string option \<Rightarrow> string" where
  "py_repr_opt None = ''None''"
| "py_repr_opt (Some x) = py_repr x"

section \<open>Paths\<close>

text \<open>\<^verbatim>\<open>os.path.join(a, b)\<close> (posixpath) and \<^verbatim>\<open>str.split(os.path.sep)\<close>.\<close>

definition os_path_join :: "string \<Rightarrow> string \<Rightarrow> string" where
  "os_path_join a b =
     (if b \<noteq> [] \<and> hd b = CHR ''/'' then b
      else if a = [] \<or> last a = CHR ''/'' then a @ b
      else a @ ''/'' @ b)"

fun split_sep :: "char \<Rightarrow> string \<Rightarrow> string list" where
  "split_sep c [] = [[]]"
| "split_sep c (x # xs) =
     (if x = c then [] # split_sep c xs
      else (case split_sep c xs of
              [] \<Rightarrow> [[x]]
            | p # ps \<Rightarrow> (x # p) # ps))"

section \<open>The Google Drive storage (storages/gd\_storage.py)\<close>

record GDConfig =
  root_folder_id :: "string option"
  folder :: string
  service_account :: string

record gd_item =
  item_id :: string
  item_name :: string

record file_metadata =
  md_name :: "string list"
  md_mimeType :: "string option"
  md_parents :: "string option list"

text \<open>
  The Drive client \<^verbatim>\<open>self.service\<close> is an external collaborator: a listing and a creation
  call over a remote state \<open>'r\<close> of its own, each of which may raise, and the constructor
  \<^verbatim>\<open>MediaFileUpload\<close>, which may raise when the local file cannot be read.
  \<open>files_create\<close> returns \<^verbatim>\<open>.get('id')\<close> of the response.
\<close>

record 'r drive_service =
  files_list :: "string \<Rightarrow> 'r \<Rightarrow> (exn + gd_item list) \<times> 'r"
  files_create :: "file_metadata \<Rightarrow> string option \<Rightarrow> 'r \<Rightarrow> (exn + string option) \<times> 'r"
  media_file_upload :: "string \<Rightarrow> exn + string"

text \<open>What the storage does to the outside, in order.\<close>

datatype event =
    ListCall string
  | Sleep int
  | CreateCall file_metadata "string option"

text \<open>The storage instance: its cache attribute, the remote it talks to, and the
  calls it has issued so far.\<close>

record 'r gd_state =
  api_cache :: "string \<rightharpoonup> string"
  remote :: 'r
  trace :: "event list"

definition call_list :: "'r drive_service \<Rightarrow> string \<Rightarrow> ('r gd_state, gd_item list) prog" where
  "call_list svc q s =
     (case files_list svc q (remote s) of
        (res, r') \<Rightarrow> (res, s\<lparr>remote := r', trace := trace s @ [ListCall q]\<rparr>))"

definition call_create :: "'r drive_service \<Rightarrow> file_metadata \<Rightarrow> string option \<Rightarrow> ('r gd_state, string option) prog" where
  "call_create svc md media s =
     (case files_create svc md media (remote s) of
        (res, r') \<Rightarrow> (res, s\<lparr>remote := r', trace := trace s @ [CreateCall md media]\<rparr>))"

text \<open>\<^verbatim>\<open>time.sleep\<close> raises \<^verbatim>\<open>ValueError\<close> on a negative length.\<close>

definition time_sleep :: "int \<Rightarrow> ('r gd_state, unit) prog" where
  "time_sleep secs s =
     (if secs < 0 then (Inl (ValueError ''sleep length must be non-negative''), s)
      else (Inr (), s\<lparr>trace := trace s @ [Sleep secs]\<rparr>))"

definition cache_key :: "string option \<Rightarrow> string \<Rightarrow> bool \<Rightarrow> string" where
  "cache_key parent_id name use_mime_type =
     py_str_opt parent_id @ ''_'' @ name @ ''_'' @ py_str_bool use_mime_type"

definition debug_header :: "string option \<Rightarrow> string \<Rightarrow> string" where
  "debug_header parent_id name =
     ''[searching name='' @ py_repr_opt (Some name) @ '' in parent_id='' @ py_repr_opt parent_id @ '']''"

definition folder_mime :: string where
  "folder_mime = ''application/vnd.google-apps.folder''"

definition mime_clause :: string where
  "mime_clause = '' and mimeType='' @ [CHR 0x27] @ folder_mime @ [CHR 0x27] @ '' ''"

definition query_string :: "string option \<Rightarrow> string \<Rightarrow> bool \<Rightarrow> string" where
  "query_string parent_id name use_mime_type =
     [CHR 0x27] @ py_str_opt parent_id @ [CHR 0x27] @ '' in parents and name = '' @ [CHR 0x27] @ name @ [CHR 0x27] @ '' ''
     @ (if use_mime_type then mime_clause else [])"

definition not_found_message :: "string option \<Rightarrow> string \<Rightarrow> int \<Rightarrow> string" where
  "not_found_message parent_id name retries =
     debug_header parent_id name @ '' not found after '' @ py_str_int retries @ '' attempt(s)''"

text \<open>
  The body of \<^verbatim>\<open>for attempt in range(retries)\<close>, over the attempts still to run.
  \<open>Inr (Some i)\<close> is the \<^verbatim>\<open>return _id\<close> inside the loop, \<open>Inr None\<close> the loop running out.
\<close>

fun attempts :: "'r drive_service \<Rightarrow> string \<Rightarrow> string \<Rightarrow> bool \<Rightarrow> int \<Rightarrow> int \<Rightarrow> int list
    \<Rightarrow> ('r gd_state, string option) prog" where
  "attempts svc q ck use_cache retries sleep_seconds [] s = (Inr None, s)"
| "attempts svc q ck use_cache retries sleep_seconds (attempt # rest) s =
     (case call_list svc q s of
        (Inl e, s1) \<Rightarrow> (Inl e, s1)
      | (Inr items, s1) \<Rightarrow>
          if length items > 0 then
            (let i = item_id (last items) in
             (Inr (Some i), if use_cache then s1\<lparr>api_cache := (api_cache s1)(ck \<mapsto> i)\<rparr> else s1))
          else if attempt < retries - 1 then
            (case time_sleep sleep_seconds s1 of
               (Inl e, s2) \<Rightarrow> (Inl e, s2)
             | (Inr u, s2) \<Rightarrow> attempts svc q ck use_cache retries sleep_seconds rest s2)
          else attempts svc q ck use_cache retries sleep_seconds rest s1)"

definition get_id_from_parent_and_name :: "'r drive_service \<Rightarrow> string option \<Rightarrow> string \<Rightarrow> int \<Rightarrow> int
    \<Rightarrow> bool \<Rightarrow> bool \<Rightarrow> bool \<Rightarrow> ('r gd_state, string option) prog" where
  "get_id_from_parent_and_name svc parent_id name retries sleep_seconds use_mime_type raise_on_missing use_cache s =
     (let ck = cache_key parent_id name use_mime_type in
      case (if use_cache then api_cache s ck else None) of
        Some cached \<Rightarrow> (Inr (Some cached), s)
      | None \<Rightarrow>
          (case attempts svc (query_string parent_id name use_mime_type) ck use_cache
                  retries sleep_seconds [0 .. retries - 1] s of
             (Inr None, s1) \<Rightarrow>
               if raise_on_missing
               then (Inl (ValueError (not_found_message parent_id name retries)), s1)
               else (Inr None, s1)
           | other \<Rightarrow> other))"

text \<open>
  The loop of \<^verbatim>\<open>get_cdn_url\<close> over \<^verbatim>\<open>path_parts[0:-1]\<close>; it carries \<^verbatim>\<open>parent_id\<close>
  and \<^verbatim>\<open>folder_id\<close> and returns the latter. The calls leave \<^verbatim>\<open>retries\<close> and
  \<^verbatim>\<open>sleep_seconds\<close> at their defaults 1 and 10.
\<close>

fun lookup_folders :: "'r drive_service \<Rightarrow> string option \<Rightarrow> string option \<Rightarrow> string list
    \<Rightarrow> ('r gd_state, string option) prog" where
  "lookup_folders svc parent_id folder_id [] s = (Inr folder_id, s)"
| "lookup_folders svc parent_id folder_id (fld # rest) s =
     (case get_id_from_parent_and_name svc parent_id fld 1 10 True True True s of
        (Inl e, s1) \<Rightarrow> (Inl e, s1)
      | (Inr found, s1) \<Rightarrow> lookup_folders svc found found rest s1)"

definition view_url :: "string option \<Rightarrow> string" where
  "view_url file_id = ''https://drive.google.com/file/d/'' @ py_str_opt file_id @ ''/view?usp=sharing''"

definition get_cdn_url :: "'r drive_service \<Rightarrow> GDConfig \<Rightarrow> string \<Rightarrow> ('r gd_state, string) prog" where
  "get_cdn_url svc cfg key =
     (let full_name = os_path_join (folder cfg) key;
          path_parts = split_sep CHR ''/'' full_name;
          filename = last path_parts
      in bind (lookup_folders svc (root_folder_id cfg) None (butlast path_parts))
           (\<lambda>folder_id. bind (get_id_from_parent_and_name svc folder_id filename 1 10 False True True)
              (\<lambda>file_id. ret (view_url file_id))))"

text \<open>\<^verbatim>\<open>try: self.get_cdn_url(key); return True  except: return False\<close>\<close>

definition exists :: "'r drive_service \<Rightarrow> GDConfig \<Rightarrow> string \<Rightarrow> ('r gd_state, bool) prog" where
  "exists svc cfg key =
     try_except (bind (get_cdn_url svc cfg key) (\<lambda>url. ret True)) [(anything, \<lambda>e. ret False)]"

definition mkdir :: "'r drive_service \<Rightarrow> string \<Rightarrow> string option \<Rightarrow> ('r gd_state, string option) prog" where
  "mkdir svc name parent_id =
     call_create svc \<lparr>md_name = [name], md_mimeType = Some folder_mime, md_parents = [parent_id]\<rparr> None"

text \<open>The loop of \<^verbatim>\<open>uploadf\<close> over \<^verbatim>\<open>path_parts[0:-1]\<close>; it carries \<^verbatim>\<open>parent_id\<close> and
  \<^verbatim>\<open>upload_to\<close> and returns the latter.\<close>

fun ensure_folders :: "'r drive_service \<Rightarrow> string option \<Rightarrow> string option \<Rightarrow> string list
    \<Rightarrow> ('r gd_state, string option) prog" where
  "ensure_folders svc parent_id upload_to [] s = (Inr upload_to, s)"
| "ensure_folders svc parent_id upload_to (fld # rest) s =
     (case get_id_from_parent_and_name svc parent_id fld 1 10 True False True s of
        (Inl e, s1) \<Rightarrow> (Inl e, s1)
      | (Inr (Some found), s1) \<Rightarrow> ensure_folders svc (Some found) (Some found) rest s1
      | (Inr None, s1) \<Rightarrow>
          (case mkdir svc fld parent_id s1 of
             (Inl e, s2) \<Rightarrow> (Inl e, s2)
           | (Inr made, s2) \<Rightarrow> ensure_folders svc made made rest s2))"

text \<open>The logging line after the creation reads \<^verbatim>\<open>gd_file["id"]\<close>, which raises
  \<^verbatim>\<open>KeyError\<close> when the response has no id.\<close>

definition uploadf :: "'r drive_service \<Rightarrow> GDConfig \<Rightarrow> string \<Rightarrow> string \<Rightarrow> ('r gd_state, unit) prog" where
  "uploadf svc cfg file key =
     (let full_name = os_path_join (folder cfg) key;
          path_parts = split_sep CHR ''/'' full_name;
          filename = last path_parts
      in bind (ensure_folders svc (root_folder_id cfg) None (butlast path_parts))
           (\<lambda>upload_to.
              case media_file_upload svc file of
                Inl e \<Rightarrow> raise e
              | Inr media \<Rightarrow>
                  bind (call_create svc
                          \<lparr>md_name = [filename], md_mimeType = None, md_parents = [upload_to]\<rparr> (Some media))
                    (\<lambda>gd_file. case gd_file of
                                  None \<Rightarrow> raise (KeyError ''id'')
                                | Some i \<Rightarrow> ret ())))"

definition upload :: "'r drive_service \<Rightarrow> GDConfig \<Rightarrow> string \<Rightarrow> string \<Rightarrow> ('r gd_state, unit) prog" where
  "upload svc cfg filename key = uploadf svc cfg filename key"

section \<open>The archivers (archivers/tiktok\_archiver.py, archivers/youtubedl\_archiver.py)\<close>

text \<open>
  \<^verbatim>\<open>ArchiveResult\<close> is declared in \<^verbatim>\<open>base_archiver.py\<close>; its fields are those that the
  two archivers pass, a field that a call leaves out being \<^verbatim>\<open>None\<close>. \<^verbatim>\<open>download\<close>
  returns one of them or \<^verbatim>\<open>False\<close>.
\<close>

record ArchiveResult =
  status :: string
  cdn_url :: "string option"
  thumbnail :: "string option"
  thumbnail_index :: "string option"
  duration :: "int option"
  title :: "string option"
  timestamp :: "string option"
  hash :: "string option"
  screenshot :: "string option"

definition result_of_status :: "string \<Rightarrow> ArchiveResult" where
  "result_of_status st =
     \<lparr>status = st, cdn_url = None, thumbnail = None, thumbnail_index = None, duration = None,
      title = None, timestamp = None, hash = None, screenshot = None\<rparr>"

datatype download_result = NotApplicable | Archived ArchiveResult

text \<open>
  What an archiver holds besides its own code: the helpers of the base class
  (\<^verbatim>\<open>get_key\<close>, \<^verbatim>\<open>get_netloc\<close>, \<^verbatim>\<open>get_thumbnails\<close>, \<^verbatim>\<open>get_hash\<close>,
  \<^verbatim>\<open>get_screenshot\<close>), the constant \<^verbatim>\<open>Storage.TMP_FOLDER\<close>, the three operations of
  its storage, and \<^verbatim>\<open>traceback.format_exc\<close>. They are parameters: each call that can
  raise has \<open>Inl\<close> among its results.
\<close>

record archiver =
  tmp_folder :: string
  get_key :: "string \<Rightarrow> string"
  get_netloc :: "string \<Rightarrow> string"
  get_thumbnails :: "string \<Rightarrow> string \<Rightarrow> int option \<Rightarrow> exn + string \<times> string"
  get_hash :: "string \<Rightarrow> exn + string"
  get_screenshot :: "string \<Rightarrow> exn + string"
  storage_exists :: "string \<Rightarrow> exn + bool"
  storage_upload :: "string \<Rightarrow> string \<Rightarrow> exn + unit"
  storage_get_cdn_url :: "string \<Rightarrow> exn + string"
  format_exc :: "exn \<Rightarrow> string"

text \<open>
  The part of the world that an archiver changes: the local files, the calls of
  \<^verbatim>\<open>storage.upload\<close> it has made (file name and key), and the cookie header of yt-dlp.
\<close>

record world =
  fs :: "string set"
  uploads :: "(string \<times> string) list"
  std_headers_cookie :: "string option"

definition call_upload :: "archiver \<Rightarrow> string \<Rightarrow> string \<Rightarrow> (world, unit) prog" where
  "call_upload a filename key w =
     (storage_upload a filename key, w\<lparr>uploads := uploads w @ [(filename, key)]\<rparr>)"

text \<open>A collaborator that writes local files: its result and the files it has written.\<close>

definition writing :: "(exn + 'a) \<times> string set \<Rightarrow> (world, 'a) prog" where
  "writing outcome w = (fst outcome, w\<lparr>fs := fs w \<union> snd outcome\<rparr>)"

definition os_remove :: "string \<Rightarrow> (world, unit) prog" where
  "os_remove filename w =
     (if filename \<in> fs w then (Inr (), w\<lparr>fs := fs w - {filename}\<rparr>)
      else (Inl (FileNotFoundError filename), w))"

subsection \<open>TiktokArchiver\<close>

text \<open>The post as \<^verbatim>\<open>tiktok_downloader.info_post\<close> returns it; \<open>info_create\<close> is
  \<^verbatim>\<open>info.create.isoformat()\<close> when the attribute is there.\<close>

record tiktok_info =
  info_id :: string
  info_duration :: "int option"
  info_create :: "string option"
  info_caption :: "string option"

record tiktok_downloader =
  info_post :: "string \<Rightarrow> exn + tiktok_info"
  snaptik_get_media :: "string \<Rightarrow> exn + string list"
  media_download :: "string \<Rightarrow> string \<Rightarrow> (exn + unit) \<times> string set"

text \<open>Lines 42 to 47, the inner \<^verbatim>\<open>try\<close> around \<^verbatim>\<open>get_thumbnails\<close>; reading
  \<^verbatim>\<open>info.duration\<close> is inside it.\<close>

definition tiktok_thumbnails :: "archiver \<Rightarrow> tiktok_info \<Rightarrow> string \<Rightarrow> string \<Rightarrow> (world, string \<times> string) prog" where
  "tiktok_thumbnails a info filename key =
     try_except
       (bind (case info_duration info of
                None \<Rightarrow> raise (AttributeError ''duration'')
              | Some d \<Rightarrow> ret d) (\<lambda>d.
        lift (get_thumbnails a filename key (Some d))))
       [(is_Exception, \<lambda>e. ret ([], ''error creating thumbnails''))]"

text \<open>Lines 52 to 54: \<^verbatim>\<open>try: os.remove(filename)  except FileNotFoundError: ...\<close>\<close>

definition tiktok_remove :: "string \<Rightarrow> (world, unit) prog" where
  "tiktok_remove filename = try_except (os_remove filename) [(is_FileNotFoundError, \<lambda>e. ret ())]"

text \<open>The body of the outer \<^verbatim>\<open>try\<close> statement.\<close>

definition tiktok_try :: "archiver \<Rightarrow> tiktok_downloader \<Rightarrow> string \<Rightarrow> bool \<Rightarrow> (world, download_result) prog" where
  "tiktok_try a td url check_if_exists =
     bind (lift (info_post td url)) (\<lambda>info.
     let key = get_key a (info_id info @ ''.mp4'');
         filename = os_path_join (tmp_folder a) key
     in
     bind (if check_if_exists then lift (storage_exists a key) else ret False) (\<lambda>found.
     let stat = (if found then ''already archived'' else ''success'') in
     bind (lift (snaptik_get_media td url)) (\<lambda>media.
     if length media \<le> 0 then
       (if stat = ''already archived'' then
          bind (lift (storage_get_cdn_url a key)) (\<lambda>cdn.
          ret (Archived ((result_of_status ''Could not download media, but already archived'')
                           \<lparr>cdn_url := Some cdn\<rparr>)))
        else ret (Archived (result_of_status ''Could not download media'')))
     else
     bind (writing (media_download td (hd media) filename)) (\<lambda>u1.
     bind (if stat \<noteq> ''already archived'' then call_upload a filename key else ret ()) (\<lambda>u2.
     bind (tiktok_thumbnails a info filename key) (\<lambda>thumbs.
     bind (lift (get_hash a filename)) (\<lambda>h.
     bind (lift (get_screenshot a url)) (\<lambda>shot.
     bind (tiktok_remove filename) (\<lambda>u3.
     bind (lift (storage_get_cdn_url a key)) (\<lambda>cdn.
     ret (Archived
            \<lparr>status = stat, cdn_url = Some cdn, thumbnail = Some (fst thumbs),
             thumbnail_index = Some (snd thumbs),
             duration = Some (case info_duration info of None \<Rightarrow> 0 | Some d \<Rightarrow> d),
             title = Some (case info_caption info of None \<Rightarrow> [] | Some c \<Rightarrow> c),
             timestamp = info_create info, hash = Some h, screenshot = Some shot\<rparr>)))))))))))"

definition tiktok_download :: "archiver \<Rightarrow> tiktok_downloader \<Rightarrow> string \<Rightarrow> bool \<Rightarrow> (world, download_result) prog" where
  "tiktok_download a td url check_if_exists =
     (if \<not> contains ''tiktok.com'' url then ret NotApplicable
      else try_except (tiktok_try a td url check_if_exists)
             [(is_InvalidUrl, \<lambda>e. ret (Archived (result_of_status ''Invalid URL''))),
              (anything, \<lambda>e. ret (Archived (result_of_status (''Other Tiktok error: '' @ format_exc a e))))])"

subsection \<open>YoutubeDLArchiver\<close>

text \<open>The info dictionary of yt-dlp, with the keys that the archiver reads; a key that is
  absent, or present with \<^verbatim>\<open>None\<close>, is \<open>None\<close>.\<close>

datatype ytinfo = YtInfo
  (yt_id: string)
  (yt_ext: string)
  (is_live: bool)
  (webpage_url: "string option")
  (entries: "ytinfo list option")
  (yt_duration: "int option")
  (yt_title: "string option")
  (yt_timestamp: "int option")
  (upload_date: "string option")

text \<open>
  \<^verbatim>\<open>ydl.extract_info(url, download)\<close> with the files it has written,
  \<^verbatim>\<open>ydl.prepare_filename\<close>, and the two conversions of \<^verbatim>\<open>datetime\<close>.
\<close>

record yt_dlp =
  extract_info :: "string \<Rightarrow> bool \<Rightarrow> (exn + ytinfo) \<times> string set"
  prepare_filename :: "ytinfo \<Rightarrow> string"
  utcfromtimestamp_isoformat :: "int \<Rightarrow> exn + string"
  strptime_ymd :: "string \<Rightarrow> exn + string"

text \<open>Lines 81 to 84: the file name that yt-dlp announces, or the \<^verbatim>\<open>.mkv\<close> name in
  its place when no such file is there.\<close>

definition local_filename :: "yt_dlp \<Rightarrow> ytinfo \<Rightarrow> world \<Rightarrow> string" where
  "local_filename ydl info w =
     (let filename = prepare_filename ydl info in
      if filename \<in> fs w then filename else hd (split_sep CHR ''.'' filename) @ ''.mkv'')"

definition youtubedl_timestamp :: "yt_dlp \<Rightarrow> ytinfo \<Rightarrow> (world, string option) prog" where
  "youtubedl_timestamp ydl info =
     (case yt_timestamp info of
        Some t \<Rightarrow> bind (lift (utcfromtimestamp_isoformat ydl t)) (\<lambda>iso. ret (Some iso))
      | None \<Rightarrow>
          (case upload_date info of
             Some d \<Rightarrow> bind (lift (strptime_ymd ydl d)) (\<lambda>dt. ret (Some dt))
           | None \<Rightarrow> ret None))"

text \<open>Lines 101 to 105, the \<^verbatim>\<open>try\<close> around \<^verbatim>\<open>get_thumbnails\<close> with its bare
  \<^verbatim>\<open>except\<close>; \<open>key\<close> is \<open>None\<close> while the variable \<^verbatim>\<open>key\<close> is unbound.\<close>

definition youtubedl_thumbnails :: "archiver \<Rightarrow> ytinfo \<Rightarrow> string \<Rightarrow> string option \<Rightarrow> (world, string \<times> string) prog" where
  "youtubedl_thumbnails a info filename key =
     try_except
       (case key of
          None \<Rightarrow> raise (NameError ''key'')
        | Some k \<Rightarrow> lift (get_thumbnails a filename k (yt_duration info)))
       [(anything, \<lambda>e. ret ([], ''Could not generate thumbnails''))]"

text \<open>Lines 73 to 79: the single entry to archive; \<open>Inr None\<close> is the
  \<^verbatim>\<open>return False\<close> for several entries.\<close>

definition single_entry :: "ytinfo \<Rightarrow> (world, ytinfo option) prog" where
  "single_entry info1 =
     (case entries info1 of
        Some es \<Rightarrow>
          if length es > 1 then ret None
          else (case es of
                  [] \<Rightarrow> raise (IndexError ''list index out of range'')
                | e # rest \<Rightarrow> ret (Some e))
      | None \<Rightarrow> ret (Some info1))"

text \<open>Lines 86 to 116, with the values of \<^verbatim>\<open>status\<close>, \<^verbatim>\<open>cdn_url\<close> and \<^verbatim>\<open>key\<close>
  on entry, the entry to archive and the name of its local file.\<close>

definition youtubedl_finish :: "archiver \<Rightarrow> yt_dlp \<Rightarrow> string \<Rightarrow> string \<Rightarrow> string option \<Rightarrow> string option
    \<Rightarrow> ytinfo \<Rightarrow> string \<Rightarrow> (world, download_result) prog" where
  "youtubedl_finish a ydl url stat cdn_url0 key0 info filename =
     bind (if stat \<noteq> ''already archived'' then
             (let key = get_key a filename in
              bind (call_upload a filename key) (\<lambda>u.
              bind (lift (storage_get_cdn_url a key)) (\<lambda>cdn. ret (Some cdn, Some key))))
           else ret (cdn_url0, key0)) (\<lambda>(cdn, key).
     bind (lift (get_hash a filename)) (\<lambda>h.
     bind (lift (get_screenshot a url)) (\<lambda>shot.
     bind (youtubedl_thumbnails a info filename key) (\<lambda>thumbs.
     bind (os_remove filename) (\<lambda>u.
     bind (youtubedl_timestamp ydl info) (\<lambda>ts.
     ret (Archived
            \<lparr>status = stat, cdn_url = cdn, thumbnail = Some (fst thumbs),
             thumbnail_index = Some (snd thumbs), duration = yt_duration info,
             title = yt_title info, timestamp = ts, hash = Some h, screenshot = Some shot\<rparr>)))))))"

text \<open>From the second \<^verbatim>\<open>extract_info\<close> (line 70) on.\<close>

definition youtubedl_fetch :: "archiver \<Rightarrow> yt_dlp \<Rightarrow> string \<Rightarrow> string \<Rightarrow> string option \<Rightarrow> string option
    \<Rightarrow> (world, download_result) prog" where
  "youtubedl_fetch a ydl url stat cdn_url0 key0 =
     bind (writing (extract_info ydl url True)) (\<lambda>info1.
     bind (single_entry info1) (\<lambda>single.
     case single of
       None \<Rightarrow> ret NotApplicable
     | Some info \<Rightarrow>
         bind (\<lambda>w. (Inr (local_filename ydl info w), w)) (\<lambda>filename.
         youtubedl_finish a ydl url stat cdn_url0 key0 info filename)))"

text \<open>Lines 49 to 67: the file name and key before the download, and the look in the
  storage. \<open>None\<close> is a \<^verbatim>\<open>return False\<close>.\<close>

definition youtubedl_check :: "archiver \<Rightarrow> yt_dlp \<Rightarrow> ytinfo
    \<Rightarrow> (world, (string \<times> string option \<times> string option) option) prog" where
  "youtubedl_check a ydl info =
     (case (case entries info of
              Some es \<Rightarrow>
                if length es > 1 then None
                else if length es = 0 then None
                else Some (prepare_filename ydl (hd es))
            | None \<Rightarrow> Some (prepare_filename ydl info)) of
        None \<Rightarrow> ret None
      | Some filename \<Rightarrow>
          (let key = get_key a filename in
           bind (lift (storage_exists a key)) (\<lambda>found.
           if found then
             bind (lift (storage_get_cdn_url a key)) (\<lambda>cdn.
             ret (Some (''already archived'', Some cdn, Some key)))
           else ret (Some (''success'', None, Some key)))))"

definition truthy :: "string option \<Rightarrow> bool" where
  "truthy v = (case v of None \<Rightarrow> False | Some x \<Rightarrow> x \<noteq> [])"

text \<open>Lines 21 to 23: the Facebook cookie goes into the headers of yt-dlp.\<close>

definition use_cookie :: "string \<Rightarrow> string option \<Rightarrow> (world, unit) prog" where
  "use_cookie netloc fb_cookie w =
     (Inr (), if netloc \<in> set [''facebook.com'', ''www.facebook.com''] \<and> truthy fb_cookie
              then w\<lparr>std_headers_cookie := fb_cookie\<rparr> else w)"

text \<open>Lines 29 to 36: the first \<^verbatim>\<open>extract_info\<close>, without download, inside
  \<^verbatim>\<open>try ... except DownloadError ... except Exception\<close>; \<open>None\<close> is a
  \<^verbatim>\<open>return False\<close>.\<close>

definition youtubedl_probe :: "yt_dlp \<Rightarrow> string \<Rightarrow> (world, ytinfo option) prog" where
  "youtubedl_probe ydl url =
     try_except
       (bind (writing (extract_info ydl url False)) (\<lambda>info. ret (Some info)))
       [(is_DownloadError, \<lambda>e. ret None), (is_Exception, \<lambda>e. ret None)]"

text \<open>Lines 42 to 47: on Twitter, go on only with a video of the tweet itself.\<close>

definition twitter_check :: "string \<Rightarrow> ytinfo \<Rightarrow> (world, bool) prog" where
  "twitter_check netloc info =
     (if contains ''twitter.com'' netloc then
        (case webpage_url info of
           None \<Rightarrow> raise (KeyError ''webpage_url'')
         | Some page \<Rightarrow> ret (contains ''https://twitter.com/'' page))
      else ret True)"

text \<open>Lines 38 to 116: what \<^verbatim>\<open>download\<close> does with the info of the first extraction.\<close>

definition youtubedl_archive :: "archiver \<Rightarrow> yt_dlp \<Rightarrow> string \<Rightarrow> bool \<Rightarrow> string \<Rightarrow> ytinfo
    \<Rightarrow> (world, download_result) prog" where
  "youtubedl_archive a ydl url check_if_exists netloc info =
     (if is_live info then ret (Archived (result_of_status ''Streaming media''))
      else
        bind (twitter_check netloc info) (\<lambda>go_on.
        if \<not> go_on then ret NotApplicable
        else
          bind (if check_if_exists then youtubedl_check a ydl info
                else ret (Some (''success'', None, None))) (\<lambda>checked.
          case checked of
            None \<Rightarrow> ret NotApplicable
          | Some (stat, cdn, key) \<Rightarrow> youtubedl_fetch a ydl url stat cdn key)))"

definition youtubedl_download :: "archiver \<Rightarrow> yt_dlp \<Rightarrow> string option \<Rightarrow> string \<Rightarrow> bool
    \<Rightarrow> (world, download_result) prog" where
  "youtubedl_download a ydl fb_cookie url check_if_exists =
     (let netloc = get_netloc a url in
      bind (use_cookie netloc fb_cookie) (\<lambda>u.
      bind (youtubedl_probe ydl url) (\<lambda>probe.
      case probe of
        None \<Rightarrow> ret NotApplicable
      | Some info \<Rightarrow> youtubedl_archive a ydl url check_if_exists netloc info)))"

section \<open>Concrete collaborators for evaluation\<close>

text \<open>A remote that lists nothing, creates whatever is asked and reads every local file;
  and a storage instance that has resolved nothing yet.\<close>

definition silent_service :: "unit drive_service" where
  "silent_service = \<lparr>files_list = (\<lambda>q r. (Inr [], r)),
                      files_create = (\<lambda>md media r. (Inr (Some ''new''), r)),
                      media_file_upload = (\<lambda>f. Inr f)\<rparr>"

definition fresh_storage :: "'r \<Rightarrow> 'r gd_state" where
  "fresh_storage r = \<lparr>api_cache = Map.empty, remote = r, trace = []\<rparr>"

text \<open>Classifying the calls: a listing restricted to folders, a folder creation, any creation.\<close>

fun folder_event :: "event \<Rightarrow> bool" where
  "folder_event (ListCall q) = suffix mime_clause q"
| "folder_event (CreateCall md media) = (md_mimeType md = Some folder_mime \<and> media = None)"
| "folder_event (Sleep secs) = False"

fun is_create :: "event \<Rightarrow> bool" where
  "is_create (CreateCall md media) = True"
| "is_create _ = False"

definition file_body :: "string \<Rightarrow> string option \<Rightarrow> file_metadata" where
  "file_body filename upload_to = \<lparr>md_name = [filename], md_mimeType = None, md_parents = [upload_to]\<rparr>"

text \<open>
  A reference remote for evaluation: the files in creation order, each with the body it
  was created from and an id numbered by its position; a listing returns, in that order,
  the entries whose parent and name give the query (and that are folders, when the query
  says so); a creation appends.
\<close>

type_synonym drive = "(string \<times> file_metadata) list"

definition drive_matches :: "string \<Rightarrow> string \<times> file_metadata \<Rightarrow> bool" where
  "drive_matches q f =
     (case (md_name (snd f), md_parents (snd f)) of
        ([n], [p]) \<Rightarrow> q = query_string p n False
                      \<or> (md_mimeType (snd f) = Some folder_mime \<and> q = query_string p n True)
      | _ \<Rightarrow> False)"

definition new_id :: "drive \<Rightarrow> string" where
  "new_id d = ''id'' @ py_str_nat (length d)"

definition reference_drive :: "drive drive_service" where
  "reference_drive =
     \<lparr>files_list = (\<lambda>q d. (Inr (map (\<lambda>f. \<lparr>item_id = fst f, item_name = concat (md_name (snd f))\<rparr>)
                                   (filter (drive_matches q) d)), d)),
      files_create = (\<lambda>md media d. (Inr (Some (new_id d)), d @ [(new_id d, md)])),
      media_file_upload = (\<lambda>f. Inr f)\<rparr>"

definition one_clip_service :: "unit drive_service" where
  "one_clip_service = \<lparr>files_list = (\<lambda>q r. (Inr [\<lparr>item_id = ''id-old'', item_name = ''clips''\<rparr>,
                                                   \<lparr>item_id = ''id-new'', item_name = ''clips''\<rparr>], r)),
                        files_create = (\<lambda>md media r. (Inr (Some ''new''), r)),
                        media_file_upload = (\<lambda>f. Inr f)\<rparr>"

text \<open>The reference remote with a listing that lags behind its creations: it shows
  nothing of what has been created.\<close>

definition lagging_drive :: "drive drive_service" where
  "lagging_drive = reference_drive\<lparr>files_list := (\<lambda>q d. (Inr [], d))\<rparr>"

text \<open>A remote whose listing lags: the first query finds nothing, every later one finds
  one entry. Its state counts the queries.\<close>

definition late_service :: "nat drive_service" where
  "late_service =
     \<lparr>files_list = (\<lambda>q n. (if n = 0 then Inr [] else Inr [\<lparr>item_id = ''id-x'', item_name = ''clips''\<rparr>], Suc n)),
      files_create = (\<lambda>md media n. (Inr (Some ''new''), n)),
      media_file_upload = (\<lambda>f. Inr f)\<rparr>"

definition archive_config :: GDConfig where
  "archive_config = \<lparr>root_folder_id = Some ''root'', folder = ''default'', service_account = ''service_account.json''\<rparr>"

definition archive_drive :: drive where
  "archive_drive = [(''fld'', \<lparr>md_name = [''default''], md_mimeType = Some folder_mime, md_parents = [Some ''root'']\<rparr>)]"

text \<open>Collaborators of the archivers where every call succeeds, a storage that refuses
  the upload, and an extractor whose download fails after its probe has succeeded.\<close>

definition demo_archiver :: archiver where
  "demo_archiver =
     \<lparr>tmp_folder = ''tmp/'',
      get_key = (\<lambda>f. ''clip_'' @ last (split_sep CHR ''/'' f)),
      get_netloc = (\<lambda>u. ''www.youtube.com''),
      get_thumbnails = (\<lambda>f k d. Inr (''thumb.jpg'', ''index.html'')),
      get_hash = (\<lambda>f. Inr ''abc123''),
      get_screenshot = (\<lambda>u. Inr ''shot.png''),
      storage_exists = (\<lambda>k. Inr True),
      storage_upload = (\<lambda>f k. Inr ()),
      storage_get_cdn_url = (\<lambda>k. Inr (''https://cdn/'' @ k)),
      format_exc = (\<lambda>e. ''Traceback'')\<rparr>"




definition demo_video :: ytinfo where
  "demo_video = YtInfo ''vid1'' ''webm'' False (Some ''https://www.youtube.com/watch?v=vid1'') None
                  (Some 60) (Some ''A video'') None None"

definition demo_ydl :: yt_dlp where
  "demo_ydl =
     \<lparr>extract_info = (\<lambda>u download. (Inr demo_video, if download then {''tmp/vid1.webm''} else {})),
      prepare_filename = (\<lambda>i. ''tmp/'' @ yt_id i @ ''.'' @ yt_ext i),
      utcfromtimestamp_isoformat = (\<lambda>t. Inr ''1970-01-01T00:00:00+00:00''),
      strptime_ymd = (\<lambda>d. Inr d)\<rparr>"

definition flaky_ydl :: yt_dlp where
  "flaky_ydl =
     demo_ydl\<lparr>extract_info := (\<lambda>u download. if download then (Inl (DownloadError ''connection reset''), {})
                                             else (Inr demo_video, {}))\<rparr>"

definition empty_world :: world where
  "empty_world = \<lparr>fs = {}, uploads = [], std_headers_cookie = None\<rparr>"



section \<open>Properties of the path resolver\<close>

subsection \<open>Auxiliary facts on alternating call sequences\<close>

lemma butlast_concat_replicate_Suc:
  "0 < m \<Longrightarrow> butlast (concat (replicate (Suc m) [a, b])) = a # b # butlast (concat (replicate m [a, b]))"
  by (cases m) auto

lemma filter_fst_alternating:
  "a \<noteq> b \<Longrightarrow> filter (\<lambda>e. e = a) (butlast (concat (replicate n [a, b]))) = replicate n a"
proof (induction n)
  case 0
  then show ?case by simp
next
  case (Suc n)
  show ?case
  proof (cases "n = 0")
    case True
    with Suc.prems show ?thesis by simp
  next
    case False
    then have "0 < n" by simp
    from butlast_concat_replicate_Suc[OF this, of a b] Suc show ?thesis
      by simp
  qed
qed

lemma attempts_all_empty:
  assumes empty: "\<forall>r. fst (files_list svc q r) = Inr []"
    and secs: "0 \<le> sleep_seconds"
  shows "\<exists>s'. attempts svc q ck use_cache retries sleep_seconds [k .. retries - 1] s = (Inr None, s')
            \<and> trace s' = trace s @ butlast (concat (replicate (nat (retries - k)) [ListCall q, Sleep sleep_seconds]))
            \<and> api_cache s' = api_cache s"
proof (induction "nat (retries - k)" arbitrary: k s)
  case 0
  then have "[k .. retries - 1] = []" by simp
  with 0 show ?case by simp
next
  case (Suc m)
  then have le: "k \<le> retries - 1" and m: "m = nat (retries - (k + 1))" by linarith+
  have unfold: "[k .. retries - 1] = k # [k + 1 .. retries - 1]"
    using le by (simp add: upto_rec1)
  obtain r' where lst: "files_list svc q (remote s) = (Inr [], r')"
    using empty by (metis prod.collapse)
  define s1 where "s1 = s\<lparr>remote := r', trace := trace s @ [ListCall q]\<rparr>"
  have cl: "call_list svc q s = (Inr [], s1)"
    by (simp add: call_list_def lst s1_def)
  show ?case
  proof (cases "k < retries - 1")
    case True
    define s2 where "s2 = s1\<lparr>trace := trace s1 @ [Sleep sleep_seconds]\<rparr>"
    have sl: "time_sleep sleep_seconds s1 = (Inr (), s2)"
      using secs by (simp add: time_sleep_def s2_def)
    from Suc.hyps(1)[OF m, of s2] obtain s' where
      IH: "attempts svc q ck use_cache retries sleep_seconds [k + 1 .. retries - 1] s2 = (Inr None, s')"
        "trace s' = trace s2 @ butlast (concat (replicate (nat (retries - (k + 1))) [ListCall q, Sleep sleep_seconds]))"
        "api_cache s' = api_cache s2"
      by blast
    have pos: "0 < m" using True m by linarith
    have n: "nat (retries - k) = Suc m" using Suc.hyps(2) by simp
    have step: "attempts svc q ck use_cache retries sleep_seconds [k .. retries - 1] s
        = attempts svc q ck use_cache retries sleep_seconds [k + 1 .. retries - 1] s2"
      using True by (simp add: unfold cl sl)
    have tr: "trace s2 = trace s @ [ListCall q, Sleep sleep_seconds]"
      by (simp add: s1_def s2_def)
    have ca: "api_cache s2 = api_cache s"
      by (simp add: s1_def s2_def)
    show ?thesis
      unfolding step n
      using IH pos m tr ca
      by (simp add: butlast_concat_replicate_Suc del: replicate.simps)
  next
    case False
    then have k: "k = retries - 1" using le by simp
    then have e: "[k + 1 .. retries - 1] = []" by simp
    have n: "nat (retries - k) = 1" using k by simp
    have step: "attempts svc q ck use_cache retries sleep_seconds [k .. retries - 1] s = (Inr None, s1)"
      using False by (simp add: unfold cl e)
    show ?thesis
      unfolding step n by (simp add: s1_def)
  qed
qed

subsection \<open>Exhausting the attempts\<close>

text \<open>
  \<^bold>\<open>C2\<close>. When the lookup misses the cache and the remote listing for the
  (parent, name) query has zero matches whenever it is asked, a resolution that raises on
  missing issues the list query exactly \<open>retries\<close> times, with one sleep of
  \<open>sleep_seconds\<close> between two consecutive queries and none after the last, and then
  raises the not-found \<^verbatim>\<open>ValueError\<close>; the cache is left as it was.
\<close>

theorem read_path_attempts_exact:
  assumes miss: "use_cache \<longrightarrow> api_cache s (cache_key parent_id name use_mime_type) = None"
    and empty: "\<forall>r. fst (files_list svc (query_string parent_id name use_mime_type) r) = Inr []"
    and secs: "0 \<le> sleep_seconds"
  shows "\<exists>s'. get_id_from_parent_and_name svc parent_id name retries sleep_seconds use_mime_type True use_cache s
                = (Inl (ValueError (not_found_message parent_id name retries)), s')
            \<and> trace s' = trace s @ butlast (concat (replicate (nat retries)
                  [ListCall (query_string parent_id name use_mime_type), Sleep sleep_seconds]))
            \<and> length (filter (\<lambda>e. e = ListCall (query_string parent_id name use_mime_type))
                  (drop (length (trace s)) (trace s'))) = nat retries
            \<and> api_cache s' = api_cache s"
proof -
  let ?q = "query_string parent_id name use_mime_type"
  let ?ck = "cache_key parent_id name use_mime_type"
  from attempts_all_empty[OF empty secs, of ?ck use_cache retries 0 s]
  obtain s' where
    run: "attempts svc ?q ?ck use_cache retries sleep_seconds [0 .. retries - 1] s = (Inr None, s')"
    and tr: "trace s' = trace s @ butlast (concat (replicate (nat retries) [ListCall ?q, Sleep sleep_seconds]))"
    and ca: "api_cache s' = api_cache s"
    by auto
  have lookup: "(if use_cache then api_cache s ?ck else None) = None"
    using miss by simp
  have res: "get_id_from_parent_and_name svc parent_id name retries sleep_seconds use_mime_type True use_cache s
      = (Inl (ValueError (not_found_message parent_id name retries)), s')"
    unfolding get_id_from_parent_and_name_def Let_def lookup using run by simp
  have cnt: "length (filter (\<lambda>e. e = ListCall ?q)
      (butlast (concat (replicate (nat retries) [ListCall ?q, Sleep sleep_seconds])))) = nat retries"
    by (simp add: filter_fst_alternating del: replicate.simps)
  have new: "drop (length (trace s)) (trace s')
      = butlast (concat (replicate (nat retries) [ListCall ?q, Sleep sleep_seconds]))"
    by (simp add: tr del: replicate.simps)
  show ?thesis
  proof (intro exI[of _ s'] conjI)
    show "get_id_from_parent_and_name svc parent_id name retries sleep_seconds use_mime_type True use_cache s
      = (Inl (ValueError (not_found_message parent_id name retries)), s')" by (rule res)
    show "trace s' = trace s @ butlast (concat (replicate (nat retries) [ListCall ?q, Sleep sleep_seconds]))"
      by (rule tr)
    show "length (filter (\<lambda>e. e = ListCall ?q) (drop (length (trace s)) (trace s'))) = nat retries"
      unfolding new by (rule cnt)
    show "api_cache s' = api_cache s" by (rule ca)
  qed
qed

theorem read_path_attempts_exact_witness:
  "\<exists>s'. get_id_from_parent_and_name silent_service (Some ''root'') ''clips'' 3 10 True True True (fresh_storage ())
           = (Inl (ValueError (not_found_message (Some ''root'') ''clips'' 3)), s')
       \<and> trace s' = [ListCall (query_string (Some ''root'') ''clips'' True), Sleep 10,
                     ListCall (query_string (Some ''root'') ''clips'' True), Sleep 10,
                     ListCall (query_string (Some ''root'') ''clips'' True)]"
  using read_path_attempts_exact[of True "fresh_storage ()" "Some ''root''" "''clips''" True silent_service 10 3]
  by (auto simp add: fresh_storage_def silent_service_def numeral_3_eq_3)

subsection \<open>A single attempt, as every caller in the storage asks for\<close>

lemma call_list_effect:
  "call_list svc q s = (res, s1) \<Longrightarrow>
     trace s1 = trace s @ [ListCall q] \<and> api_cache s1 = api_cache s
     \<and> (res, remote s1) = files_list svc q (remote s)"
  by (auto simp: call_list_def split: prod.splits)

lemma get_id_once:
  "get_id_from_parent_and_name svc parent_id name 1 sleep_seconds use_mime_type raise_on_missing True s =
     (case api_cache s (cache_key parent_id name use_mime_type) of
        Some cached \<Rightarrow> (Inr (Some cached), s)
      | None \<Rightarrow>
          (case call_list svc (query_string parent_id name use_mime_type) s of
             (Inl e, s1) \<Rightarrow> (Inl e, s1)
           | (Inr items, s1) \<Rightarrow>
               if items \<noteq> [] then
                 (Inr (Some (item_id (last items))),
                  s1\<lparr>api_cache := (api_cache s1)(cache_key parent_id name use_mime_type \<mapsto> item_id (last items))\<rparr>)
               else if raise_on_missing
               then (Inl (ValueError (not_found_message parent_id name 1)), s1)
               else (Inr None, s1)))"
  by (simp add: get_id_from_parent_and_name_def Let_def split: option.splits prod.splits sum.splits)

subsection \<open>Which entry of a listing is taken\<close>



subsection \<open>The resolution cache\<close>

lemma attempts_found:
  "attempts svc q ck use_cache retries sleep_seconds [k .. retries - 1] s = (Inr (Some i), s1) \<Longrightarrow>
     \<exists>m. trace s1 = trace s @ concat (replicate m [ListCall q, Sleep sleep_seconds]) @ [ListCall q]
        \<and> int m \<le> retries - 1 - k
        \<and> api_cache s1 = (if use_cache then (api_cache s)(ck \<mapsto> i) else api_cache s)"
proof (induction "nat (retries - k)" arbitrary: k s)
  case 0
  then have "[k .. retries - 1] = []" by simp
  with 0 show ?case by simp
next
  case (Suc n)
  then have le: "k \<le> retries - 1" and n: "n = nat (retries - (k + 1))" by linarith+
  have unfold: "[k .. retries - 1] = k # [k + 1 .. retries - 1]"
    using le by (simp add: upto_rec1)
  obtain res sa where cl: "call_list svc q s = (res, sa)" by (cases "call_list svc q s")
  note eff = call_list_effect[OF cl]
  from Suc.prems cl obtain items where res: "res = Inr items"
    by (cases res) (auto simp: unfold)
  show ?case
  proof (cases "items = []")
    case False
    with Suc.prems cl res
    have "i = item_id (last items)"
      and "s1 = (if use_cache then sa\<lparr>api_cache := (api_cache sa)(ck \<mapsto> item_id (last items))\<rparr> else sa)"
      by (auto simp: unfold Let_def)
    then have "trace s1 = trace s @ concat (replicate 0 [ListCall q, Sleep sleep_seconds]) @ [ListCall q]"
      and "api_cache s1 = (if use_cache then (api_cache s)(ck \<mapsto> i) else api_cache s)"
      using eff by auto
    moreover have "int 0 \<le> retries - 1 - k" using le by simp
    ultimately show ?thesis by blast
  next
    case True
    show ?thesis
    proof (cases "k < retries - 1")
      case False
      then have "[k + 1 .. retries - 1] = []" by simp
      with Suc.prems cl res True False show ?thesis
        by (simp add: unfold)
    next
      case lt: True
      have nonneg: "\<not> sleep_seconds < 0"
        using Suc.prems cl res True lt by (auto simp: unfold time_sleep_def split: if_splits)
      define s2 where "s2 = sa\<lparr>trace := trace sa @ [Sleep sleep_seconds]\<rparr>"
      have sl: "time_sleep sleep_seconds sa = (Inr (), s2)"
        using nonneg by (simp add: time_sleep_def s2_def)
      have rest: "attempts svc q ck use_cache retries sleep_seconds [k + 1 .. retries - 1] s2 = (Inr (Some i), s1)"
        using Suc.prems cl res True lt by (simp add: unfold sl)
      from Suc.hyps(1)[OF n rest] obtain m where
        m: "trace s1 = trace s2 @ concat (replicate m [ListCall q, Sleep sleep_seconds]) @ [ListCall q]"
          "int m \<le> retries - 1 - (k + 1)"
          "api_cache s1 = (if use_cache then (api_cache s2)(ck \<mapsto> i) else api_cache s2)"
        by blast
      have "trace s1 = trace s @ concat (replicate (Suc m) [ListCall q, Sleep sleep_seconds]) @ [ListCall q]"
        using m(1) eff by (simp add: s2_def)
      moreover have "int (Suc m) \<le> retries - 1 - k" using m(2) by simp
      moreover have "api_cache s1 = (if use_cache then (api_cache s)(ck \<mapsto> i) else api_cache s)"
        using m(3) eff by (simp add: s2_def)
      ultimately show ?thesis by blast
    qed
  qed
qed

text \<open>
  \<^bold>\<open>C4\<close>, as the code has it. For a triple that is not in the cache: when the remote
  listing of the first attempt returns one or more entries, the first resolution returns
  the id of the last one after exactly one list query, and a second resolution of the same
  triple on the same instance returns the same id and leaves the instance exactly as it
  was, so that one list query is issued across the two. In general, whenever the first
  resolution returns an id, the second returns the same id with no remote call, and the
  first has issued \<open>m + 1\<close> list queries with \<open>m < retries\<close>: the \<open>m\<close> that found
  nothing, each followed by a sleep, then the one that matched.
\<close>

theorem second_resolution_served_from_cache:
  assumes miss: "api_cache s (cache_key parent_id name use_mime_type) = None"
  shows "(0 < retries
          \<and> files_list svc (query_string parent_id name use_mime_type) (remote s) = (Inr items, r')
          \<and> items \<noteq> []
          \<longrightarrow> (\<exists>s1. get_id_from_parent_and_name svc parent_id name retries sleep_seconds use_mime_type
                        raise_on_missing True s = (Inr (Some (item_id (last items))), s1)
                   \<and> get_id_from_parent_and_name svc parent_id name retries sleep_seconds use_mime_type
                        raise_on_missing True s1 = (Inr (Some (item_id (last items))), s1)
                   \<and> trace s1 = trace s @ [ListCall (query_string parent_id name use_mime_type)]))
       \<and> (get_id_from_parent_and_name svc parent_id name retries sleep_seconds use_mime_type
              raise_on_missing True s = (Inr (Some i), sb)
          \<longrightarrow> get_id_from_parent_and_name svc parent_id name retries sleep_seconds use_mime_type
                 raise_on_missing True sb = (Inr (Some i), sb)
              \<and> (\<exists>m. trace sb = trace s @ concat (replicate m [ListCall (query_string parent_id name use_mime_type),
                                                                 Sleep sleep_seconds])
                                     @ [ListCall (query_string parent_id name use_mime_type)]
                     \<and> int m < retries)
              \<and> (retries = 1 \<longrightarrow> trace sb = trace s @ [ListCall (query_string parent_id name use_mime_type)]))"
proof (intro conjI impI)
  let ?q = "query_string parent_id name use_mime_type"
  let ?ck = "cache_key parent_id name use_mime_type"
  assume h: "0 < retries \<and> files_list svc ?q (remote s) = (Inr items, r') \<and> items \<noteq> []"
  let ?i = "item_id (last items)"
  define s1 where "s1 = s\<lparr>remote := r', trace := trace s @ [ListCall ?q], api_cache := (api_cache s)(?ck \<mapsto> ?i)\<rparr>"
  have up: "[0 .. retries - 1] = 0 # [1 .. retries - 1]"
    using h by (simp add: upto_rec1)
  have cl: "call_list svc ?q s = (Inr items, s\<lparr>remote := r', trace := trace s @ [ListCall ?q]\<rparr>)"
    using h by (simp add: call_list_def)
  have loop: "attempts svc ?q ?ck True retries sleep_seconds [0 .. retries - 1] s = (Inr (Some ?i), s1)"
    unfolding up using h by (simp add: cl s1_def Let_def)
  have first: "get_id_from_parent_and_name svc parent_id name retries sleep_seconds use_mime_type
      raise_on_missing True s = (Inr (Some ?i), s1)"
    by (simp add: get_id_from_parent_and_name_def Let_def miss loop)
  have second: "get_id_from_parent_and_name svc parent_id name retries sleep_seconds use_mime_type
      raise_on_missing True s1 = (Inr (Some ?i), s1)"
    by (simp add: get_id_from_parent_and_name_def Let_def s1_def)
  have tr: "trace s1 = trace s @ [ListCall ?q]" by (simp add: s1_def)
  from first second tr
  show "\<exists>s1. get_id_from_parent_and_name svc parent_id name retries sleep_seconds use_mime_type
                        raise_on_missing True s = (Inr (Some ?i), s1)
                   \<and> get_id_from_parent_and_name svc parent_id name retries sleep_seconds use_mime_type
                        raise_on_missing True s1 = (Inr (Some ?i), s1)
                   \<and> trace s1 = trace s @ [ListCall ?q]"
    by blast
next
  let ?q = "query_string parent_id name use_mime_type"
  let ?ck = "cache_key parent_id name use_mime_type"
  assume first: "get_id_from_parent_and_name svc parent_id name retries sleep_seconds use_mime_type
              raise_on_missing True s = (Inr (Some i), sb)"
  have loop: "attempts svc ?q ?ck True retries sleep_seconds [0 .. retries - 1] s = (Inr (Some i), sb)"
    using first miss
    by (auto simp: get_id_from_parent_and_name_def Let_def split: prod.splits sum.splits option.splits if_splits)
  from attempts_found[OF loop] obtain m where
    tr: "trace sb = trace s @ concat (replicate m [ListCall ?q, Sleep sleep_seconds]) @ [ListCall ?q]"
    and m: "int m \<le> retries - 1 - 0"
    and ca: "api_cache sb = (api_cache s)(?ck \<mapsto> i)"
    by auto
  show "get_id_from_parent_and_name svc parent_id name retries sleep_seconds use_mime_type
      raise_on_missing True sb = (Inr (Some i), sb)"
    by (simp add: get_id_from_parent_and_name_def Let_def ca)
  show "\<exists>m. trace sb = trace s @ concat (replicate m [ListCall ?q, Sleep sleep_seconds]) @ [ListCall ?q]
             \<and> int m < retries"
    using tr m by (intro exI[of _ m]) simp
  show "trace sb = trace s @ [ListCall ?q]" if "retries = 1"
    using tr m that by simp
qed

theorem second_resolution_served_from_cache_witness:
  "(\<exists>s1. get_id_from_parent_and_name one_clip_service (Some ''root'') ''clips'' 1 10 True True True (fresh_storage ())
            = (Inr (Some ''id-new''), s1)
        \<and> get_id_from_parent_and_name one_clip_service (Some ''root'') ''clips'' 1 10 True True True s1
            = (Inr (Some ''id-new''), s1)
        \<and> trace s1 = [ListCall (query_string (Some ''root'') ''clips'' True)])"
proof -
  have miss: "api_cache (fresh_storage ()) (cache_key (Some ''root'') ''clips'' True) = None"
    by (simp add: fresh_storage_def)
  have listing: "(0::int) < 1
      \<and> files_list one_clip_service (query_string (Some ''root'') ''clips'' True) (remote (fresh_storage ()))
          = (Inr [\<lparr>item_id = ''id-old'', item_name = ''clips''\<rparr>, \<lparr>item_id = ''id-new'', item_name = ''clips''\<rparr>], ())
      \<and> [\<lparr>item_id = ''id-old'', item_name = ''clips''\<rparr>, \<lparr>item_id = ''id-new'', item_name = ''clips''\<rparr>] \<noteq> []"
    by (simp add: one_clip_service_def)
  from second_resolution_served_from_cache[OF miss, where retries = 1 and svc = one_clip_service and r' = "()"
      and items = "[\<lparr>item_id = ''id-old'', item_name = ''clips''\<rparr>, \<lparr>item_id = ''id-new'', item_name = ''clips''\<rparr>]"
      and sleep_seconds = 10 and raise_on_missing = True and i = "''id-new''" and sb = "fresh_storage ()"]
  have "\<exists>s1. get_id_from_parent_and_name one_clip_service (Some ''root'') ''clips'' 1 10 True True True (fresh_storage ())
            = (Inr (Some (item_id (last [\<lparr>item_id = ''id-old'', item_name = ''clips''\<rparr>, \<lparr>item_id = ''id-new'', item_name = ''clips''\<rparr>]))), s1)
        \<and> get_id_from_parent_and_name one_clip_service (Some ''root'') ''clips'' 1 10 True True True s1
            = (Inr (Some (item_id (last [\<lparr>item_id = ''id-old'', item_name = ''clips''\<rparr>, \<lparr>item_id = ''id-new'', item_name = ''clips''\<rparr>]))), s1)
        \<and> trace s1 = trace (fresh_storage ()) @ [ListCall (query_string (Some ''root'') ''clips'' True)]"
    using listing by blast
  then show ?thesis by (simp add: fresh_storage_def)
qed

lemma three_attempts: "[0 .. (2::int)] = [0, 1, 2]"
  by code_simp

lemma late_first_resolution:
  "get_id_from_parent_and_name late_service (Some ''root'') ''clips'' 3 10 True True True (fresh_storage 0)
     = (Inr (Some ''id-x''),
        \<lparr>api_cache = [cache_key (Some ''root'') ''clips'' True \<mapsto> ''id-x''], remote = 2,
         trace = [ListCall (query_string (Some ''root'') ''clips'' True), Sleep 10,
                  ListCall (query_string (Some ''root'') ''clips'' True)]\<rparr>)"
  by (simp add: get_id_from_parent_and_name_def Let_def fresh_storage_def late_service_def
      call_list_def time_sleep_def numeral_2_eq_2 three_attempts)

lemma late_second_resolution:
  "get_id_from_parent_and_name late_service (Some ''root'') ''clips'' 3 10 True True True
        \<lparr>api_cache = [cache_key (Some ''root'') ''clips'' True \<mapsto> ''id-x''], remote = 2,
         trace = [ListCall (query_string (Some ''root'') ''clips'' True), Sleep 10,
                  ListCall (query_string (Some ''root'') ''clips'' True)]\<rparr>
     = (Inr (Some ''id-x''),
        \<lparr>api_cache = [cache_key (Some ''root'') ''clips'' True \<mapsto> ''id-x''], remote = 2,
         trace = [ListCall (query_string (Some ''root'') ''clips'' True), Sleep 10,
                  ListCall (query_string (Some ''root'') ''clips'' True)]\<rparr>)"
  by (simp add: get_id_from_parent_and_name_def Let_def)

text \<open>
  \<^bold>\<open>C4\<close> as stated, with exactly one list query for every first resolution that succeeds,
  fails when more than one attempt is allowed: on a remote whose listing lags by one
  query, a resolution with three attempts succeeds after two list queries, and these are
  the queries issued across the two resolutions.
\<close>

theorem late_listing_needs_two_queries:
  "fst (get_id_from_parent_and_name late_service (Some ''root'') ''clips'' 3 10 True True True (fresh_storage 0))
     = Inr (Some ''id-x'')
   \<and> fst (get_id_from_parent_and_name late_service (Some ''root'') ''clips'' 3 10 True True True
           (snd (get_id_from_parent_and_name late_service (Some ''root'') ''clips'' 3 10 True True True (fresh_storage 0))))
     = Inr (Some ''id-x'')
   \<and> filter (\<lambda>e. e = ListCall (query_string (Some ''root'') ''clips'' True))
        (trace (snd (get_id_from_parent_and_name late_service (Some ''root'') ''clips'' 3 10 True True True
           (snd (get_id_from_parent_and_name late_service (Some ''root'') ''clips'' 3 10 True True True (fresh_storage 0))))))
     = [ListCall (query_string (Some ''root'') ''clips'' True), ListCall (query_string (Some ''root'') ''clips'' True)]"
  by (simp add: late_first_resolution late_second_resolution)

subsection \<open>Lookups for reading: \<^verbatim>\<open>get_cdn_url\<close> and \<^verbatim>\<open>exists\<close>\<close>

text \<open>
  \<^bold>\<open>C9\<close>. \<^verbatim>\<open>exists\<close> never raises: it returns \<open>True\<close> when \<^verbatim>\<open>get_cdn_url\<close>
  returns and \<open>False\<close> when \<^verbatim>\<open>get_cdn_url\<close> raises, whatever the exception is (the
  not-found \<^verbatim>\<open>ValueError\<close>, a failure of the remote call, or an exception outside
  \<^verbatim>\<open>Exception\<close>), in the state that \<^verbatim>\<open>get_cdn_url\<close> has reached. A failing remote
  and an absent key give the same answer.
\<close>

theorem exists_swallows_every_exception:
  "exists svc cfg key s =
     (Inr (case fst (get_cdn_url svc cfg key s) of Inl e \<Rightarrow> False | Inr url \<Rightarrow> True),
      snd (get_cdn_url svc cfg key s))"
  by (simp add: exists_def try_except_def anything_def bind_def ret_def split: prod.splits sum.splits)











section \<open>Properties of the upload path\<close>

subsection \<open>A missing folder\<close>

text \<open>
  \<^bold>\<open>C3\<close>, as the code has it. On the upload path, for a path segment that is not in
  the cache and whose remote listing returns zero matches, the resolver issues that one
  list query (no retry), creates exactly one folder with that name under the current
  parent, and goes on with the created folder as the parent. The cache is left as it
  was: the id of the created folder is not stored in it.
\<close>

theorem write_path_creates_missing_folder:
  assumes miss: "api_cache s (cache_key parent_id fld True) = None"
    and lst: "files_list svc (query_string parent_id fld True) (remote s) = (Inr [], r1)"
    and mk: "files_create svc \<lparr>md_name = [fld], md_mimeType = Some folder_mime, md_parents = [parent_id]\<rparr> None r1
               = (Inr made, r2)"
  shows "ensure_folders svc parent_id upload_to (fld # rest) s
           = ensure_folders svc made made rest
               (s\<lparr>remote := r2,
                  trace := trace s @ [ListCall (query_string parent_id fld True),
                                      CreateCall \<lparr>md_name = [fld], md_mimeType = Some folder_mime,
                                                  md_parents = [parent_id]\<rparr> None]\<rparr>)
       \<and> api_cache (s\<lparr>remote := r2,
                  trace := trace s @ [ListCall (query_string parent_id fld True),
                                      CreateCall \<lparr>md_name = [fld], md_mimeType = Some folder_mime,
                                                  md_parents = [parent_id]\<rparr> None]\<rparr>) = api_cache s"
  using miss lst mk
  by (simp add: get_id_once call_list_def mkdir_def call_create_def)

theorem write_path_creates_missing_folder_witness:
  "ensure_folders silent_service (Some ''root'') None [''default''] (fresh_storage ())
     = (Inr (Some ''new''),
        \<lparr>api_cache = Map.empty, remote = (),
         trace = [ListCall (query_string (Some ''root'') ''default'' True),
                  CreateCall \<lparr>md_name = [''default''], md_mimeType = Some folder_mime,
                              md_parents = [Some ''root'']\<rparr> None]\<rparr>)"
  using write_path_creates_missing_folder[of "fresh_storage ()" "Some ''root''" "''default''" silent_service "()" "Some ''new''" "()" None "[]"]
  by (simp add: fresh_storage_def silent_service_def)

lemma uploadf_example:
  "uploadf silent_service archive_config ''tmp/a.mp4'' ''a.mp4'' (fresh_storage ())
     = (Inr (), \<lparr>api_cache = Map.empty, remote = (),
                 trace = [ListCall (query_string (Some ''root'') ''default'' True),
                          CreateCall \<lparr>md_name = [''default''], md_mimeType = Some folder_mime,
                                      md_parents = [Some ''root'']\<rparr> None,
                          CreateCall \<lparr>md_name = [''a.mp4''], md_mimeType = None,
                                      md_parents = [Some ''new'']\<rparr> (Some ''tmp/a.mp4'')]\<rparr>)"
  by (simp add: uploadf_def archive_config_def os_path_join_def Let_def bind_def ret_def raise_def
      get_id_once call_list_def mkdir_def call_create_def silent_service_def fresh_storage_def)

text \<open>
  \<^bold>\<open>C3\<close> as stated, with the created id cached, fails: after an upload that created the
  folder \<open>default\<close> under \<open>root\<close>, the cache has no entry under that folder's key.
\<close>

theorem created_folder_not_cached:
  "fst (uploadf silent_service archive_config ''tmp/a.mp4'' ''a.mp4'' (fresh_storage ())) = Inr ()
   \<and> CreateCall \<lparr>md_name = [''default''], md_mimeType = Some folder_mime, md_parents = [Some ''root'']\<rparr> None
       \<in> set (trace (snd (uploadf silent_service archive_config ''tmp/a.mp4'' ''a.mp4'' (fresh_storage ()))))
   \<and> api_cache (snd (uploadf silent_service archive_config ''tmp/a.mp4'' ''a.mp4'' (fresh_storage ())))
        (cache_key (Some ''root'') ''default'' True) = None"
  by (simp add: uploadf_example)

subsection \<open>What an upload issues\<close>

lemma folder_query_event: "suffix mime_clause (query_string p n True)"
  by (simp add: query_string_def suffix_def)

lemma call_create_effect:
  "call_create svc md media s = (res, s1) \<Longrightarrow>
     trace s1 = trace s @ [CreateCall md media] \<and> api_cache s1 = api_cache s
     \<and> (res, remote s1) = files_create svc md media (remote s)"
  by (auto simp: call_create_def split: prod.splits)

lemma ensure_folders_hit:
  "api_cache s (cache_key parent_id fld True) = Some c \<Longrightarrow>
     ensure_folders svc parent_id upload_to (fld # rest) s = ensure_folders svc (Some c) (Some c) rest s"
  by (simp add: get_id_once)

lemma ensure_folders_run:
  fixes svc :: "'r drive_service"
  shows "ensure_folders svc parent_id upload_to parts s = (res, s1) \<Longrightarrow>
     \<exists>ev. trace s1 = trace s @ ev \<and> (\<forall>e \<in> set ev. folder_event e)
        \<and> api_cache s \<subseteq>\<^sub>m api_cache s1
        \<and> (\<forall>ut. res = Inr ut \<longrightarrow> (\<forall>e \<in> set ev. \<not> is_create e) \<longrightarrow>
              (\<forall>s2. api_cache s1 \<subseteq>\<^sub>m api_cache s2 \<longrightarrow>
                    ensure_folders svc parent_id upload_to parts s2 = (Inr ut, s2)))"
proof (induction parts arbitrary: parent_id upload_to s)
  case Nil
  then show ?case by auto
next
  case (Cons fld rest)
  let ?ck = "cache_key parent_id fld True"
  let ?q = "query_string parent_id fld True"
  show ?case
  proof (cases "api_cache s ?ck")
    case (Some c)
    from Cons.prems have run: "ensure_folders svc (Some c) (Some c) rest s = (res, s1)"
      by (simp only: ensure_folders_hit[OF Some])
    from Cons.IH[OF run] obtain ev where ev:
      "trace s1 = trace s @ ev" "\<forall>e \<in> set ev. folder_event e" "api_cache s \<subseteq>\<^sub>m api_cache s1"
      "\<forall>ut. res = Inr ut \<longrightarrow> (\<forall>e \<in> set ev. \<not> is_create e) \<longrightarrow>
              (\<forall>s2. api_cache s1 \<subseteq>\<^sub>m api_cache s2 \<longrightarrow>
                    ensure_folders svc (Some c) (Some c) rest s2 = (Inr ut, s2))"
      by blast
    have replay: "ensure_folders svc parent_id upload_to (fld # rest) s2 = (Inr ut, s2)"
      if "res = Inr ut" "\<forall>e \<in> set ev. \<not> is_create e" "api_cache s1 \<subseteq>\<^sub>m api_cache s2" for ut s2
    proof -
      have h2: "api_cache s2 ?ck = Some c"
        using Some ev(3) that(3) by (metis domI map_le_def)
      show ?thesis
        unfolding ensure_folders_hit[OF h2] using ev(4) that by blast
    qed
    show ?thesis
    proof (intro exI[of _ ev] conjI allI impI)
      fix ut and s2 :: "'r gd_state"
      assume "res = Inr ut" "\<forall>e \<in> set ev. \<not> is_create e" "api_cache s1 \<subseteq>\<^sub>m api_cache s2"
      then show "ensure_folders svc parent_id upload_to (fld # rest) s2 = (Inr ut, s2)"
        by (rule replay)
    qed (use ev in simp_all)
  next
    case None
    obtain lres sa where cl: "call_list svc ?q s = (lres, sa)" by (cases "call_list svc ?q s")
    have sa: "trace sa = trace s @ [ListCall ?q]" "api_cache sa = api_cache s"
      using cl by (auto simp: call_list_def split: prod.splits)
    show ?thesis
    proof (cases lres)
      case (Inl e)
      with Cons.prems None cl have "res = Inl e" "s1 = sa" by (simp_all add: get_id_once)
      with sa show ?thesis by (auto simp: folder_query_event)
    next
      case (Inr items)
      show ?thesis
      proof (cases "items = []")
        case False
        define i where "i = item_id (last items)"
        define sb where "sb = sa\<lparr>api_cache := (api_cache sa)(?ck \<mapsto> i)\<rparr>"
        from Cons.prems None cl Inr False
        have run: "ensure_folders svc (Some i) (Some i) rest sb = (res, s1)"
          by (simp add: get_id_once sb_def i_def)
        from Cons.IH[OF run] obtain ev where ev:
          "trace s1 = trace sb @ ev" "\<forall>e \<in> set ev. folder_event e" "api_cache sb \<subseteq>\<^sub>m api_cache s1"
          "\<forall>ut. res = Inr ut \<longrightarrow> (\<forall>e \<in> set ev. \<not> is_create e) \<longrightarrow>
              (\<forall>s2. api_cache s1 \<subseteq>\<^sub>m api_cache s2 \<longrightarrow>
                    ensure_folders svc (Some i) (Some i) rest s2 = (Inr ut, s2))"
          by blast
        have tr: "trace s1 = trace s @ (ListCall ?q # ev)"
          using ev(1) sa by (simp add: sb_def)
        have fe: "\<forall>e \<in> set (ListCall ?q # ev). folder_event e"
          using ev(2) by (simp add: folder_query_event)
        have "api_cache s \<subseteq>\<^sub>m api_cache sb"
          using None sa by (auto simp add: sb_def map_le_def)
        then have mono: "api_cache s \<subseteq>\<^sub>m api_cache s1"
          using ev(3) by (rule map_le_trans)
        have replay: "ensure_folders svc parent_id upload_to (fld # rest) s2 = (Inr ut, s2)"
          if "res = Inr ut" "\<forall>e \<in> set (ListCall ?q # ev). \<not> is_create e" "api_cache s1 \<subseteq>\<^sub>m api_cache s2" for ut s2
        proof -
          have "api_cache sb ?ck = Some i" by (simp add: sb_def)
          then have h2: "api_cache s2 ?ck = Some i"
            using ev(3) that(3) by (metis domI map_le_def)
          have "\<forall>e \<in> set ev. \<not> is_create e" using that(2) by simp
          then show ?thesis
            unfolding ensure_folders_hit[OF h2] using ev(4) that(1,3) by blast
        qed
        show ?thesis
        proof (intro exI[of _ "ListCall ?q # ev"] conjI allI impI)
          show "trace s1 = trace s @ ListCall ?q # ev" by (rule tr)
          show "\<forall>e \<in> set (ListCall ?q # ev). folder_event e" by (rule fe)
          show "api_cache s \<subseteq>\<^sub>m api_cache s1" by (rule mono)
          fix ut and s2 :: "'r gd_state"
          assume "res = Inr ut" "\<forall>e \<in> set (ListCall ?q # ev). \<not> is_create e"
            "api_cache s1 \<subseteq>\<^sub>m api_cache s2"
          then show "ensure_folders svc parent_id upload_to (fld # rest) s2 = (Inr ut, s2)"
            by (rule replay)
        qed
      next
        case True
        let ?md = "\<lparr>md_name = [fld], md_mimeType = Some folder_mime, md_parents = [parent_id]\<rparr>"
        obtain cres sb where cc: "call_create svc ?md None sa = (cres, sb)"
          by (cases "call_create svc ?md None sa")
        have sb: "trace sb = trace sa @ [CreateCall ?md None]" "api_cache sb = api_cache sa"
          using cc by (auto simp: call_create_def split: prod.splits)
        show ?thesis
        proof (cases cres)
          case (Inl e)
          with Cons.prems None cl Inr True cc have "res = Inl e" "s1 = sb"
            by (simp_all add: get_id_once mkdir_def)
          with sa sb show ?thesis by (auto simp: folder_query_event)
        next
          case made: (Inr made)
          with Cons.prems None cl Inr True cc
          have run: "ensure_folders svc made made rest sb = (res, s1)"
            by (simp add: get_id_once mkdir_def)
          from Cons.IH[OF run] obtain ev where ev:
            "trace s1 = trace sb @ ev" "\<forall>e \<in> set ev. folder_event e" "api_cache sb \<subseteq>\<^sub>m api_cache s1"
            by blast
          have tr: "trace s1 = trace s @ (ListCall ?q # CreateCall ?md None # ev)"
            using ev(1) sa sb by simp
          have fe: "\<forall>e \<in> set (ListCall ?q # CreateCall ?md None # ev). folder_event e"
            using ev(2) by (simp add: folder_query_event)
          have mono: "api_cache s \<subseteq>\<^sub>m api_cache s1"
            using ev(3) sa sb by simp
          show ?thesis
          proof (intro exI[of _ "ListCall ?q # CreateCall ?md None # ev"] conjI allI impI)
            show "trace s1 = trace s @ ListCall ?q # CreateCall ?md None # ev" by (rule tr)
            show "\<forall>e \<in> set (ListCall ?q # CreateCall ?md None # ev). folder_event e" by (rule fe)
            show "api_cache s \<subseteq>\<^sub>m api_cache s1" by (rule mono)
            fix ut and s2 :: "'r gd_state"
            assume "\<forall>e \<in> set (ListCall ?q # CreateCall ?md None # ev). \<not> is_create e"
            then show "ensure_folders svc parent_id upload_to (fld # rest) s2 = (Inr ut, s2)"
              by simp
          qed
        qed
      qed
    qed
  qed
qed

lemma ensure_folders_returns:
  assumes lists: "\<forall>q r. \<exists>items. fst (files_list svc q r) = Inr items"
    and creates: "\<forall>md media r. \<exists>i. fst (files_create svc md media r) = Inr (Some i)"
  shows "\<exists>ut s1. ensure_folders svc parent_id upload_to parts s = (Inr ut, s1)"
proof (induction parts arbitrary: parent_id upload_to s)
  case Nil
  then show ?case by simp
next
  case (Cons fld rest)
  let ?ck = "cache_key parent_id fld True"
  let ?q = "query_string parent_id fld True"
  let ?md = "\<lparr>md_name = [fld], md_mimeType = Some folder_mime, md_parents = [parent_id]\<rparr>"
  show ?case
  proof (cases "api_cache s ?ck")
    case (Some c)
    with Cons.IH show ?thesis by (simp add: get_id_once)
  next
    case None
    from lists obtain items r1 where l: "files_list svc ?q (remote s) = (Inr items, r1)"
      by (metis prod.collapse)
    from creates obtain i r2 where c: "files_create svc ?md None r1 = (Inr (Some i), r2)"
      by (metis prod.collapse)
    show ?thesis
      using None l c Cons.IH
      by (cases "items = []") (simp_all add: get_id_once call_list_def mkdir_def call_create_def)
  qed
qed

lemma uploadf_run:
  fixes svc :: "'r drive_service"
  assumes lists: "\<forall>q r. \<exists>items. fst (files_list svc q r) = Inr items"
    and creates: "\<forall>md media r. \<exists>i. fst (files_create svc md media r) = Inr (Some i)"
    and media: "media_file_upload svc file = Inr m"
  shows "\<exists>p sa s1 i.
           ensure_folders svc (root_folder_id cfg) None
              (butlast (split_sep CHR ''/'' (os_path_join (folder cfg) key))) s = (Inr p, sa)
         \<and> files_create svc (file_body (last (split_sep CHR ''/'' (os_path_join (folder cfg) key))) p) (Some m) (remote sa)
             = (Inr (Some i), remote s1)
         \<and> uploadf svc cfg file key s = (Inr (), s1)
         \<and> trace s1 = trace sa @ [CreateCall (file_body (last (split_sep CHR ''/'' (os_path_join (folder cfg) key))) p) (Some m)]
         \<and> api_cache s1 = api_cache sa"
proof -
  let ?parts = "split_sep CHR ''/'' (os_path_join (folder cfg) key)"
  from ensure_folders_returns[OF lists creates] obtain p sa where
    ef: "ensure_folders svc (root_folder_id cfg) None (butlast ?parts) s = (Inr p, sa)"
    by blast
  from creates obtain i r2 where
    c: "files_create svc (file_body (last ?parts) p) (Some m) (remote sa) = (Inr (Some i), r2)"
    by (metis prod.collapse)
  define s1 where "s1 = sa\<lparr>remote := r2, trace := trace sa @ [CreateCall (file_body (last ?parts) p) (Some m)]\<rparr>"
  have cc: "call_create svc (file_body (last ?parts) p) (Some m) sa = (Inr (Some i), s1)"
    by (simp add: call_create_def c s1_def)
  have up: "uploadf svc cfg file key s = (Inr (), s1)"
    using cc by (simp add: uploadf_def Let_def bind_def ret_def ef media file_body_def)
  have tr: "trace s1 = trace sa @ [CreateCall (file_body (last ?parts) p) (Some m)]"
    and ca: "api_cache s1 = api_cache sa" and re: "remote s1 = r2"
    by (simp_all add: s1_def)
  show ?thesis
    by (rule exI[of _ p], rule exI[of _ sa], rule exI[of _ s1], rule exI[of _ i])
       (simp add: ef up tr ca c re)
qed

lemma reference_drive_lists: "\<forall>q r. \<exists>items. fst (files_list reference_drive q r) = Inr items"
  by (simp add: reference_drive_def)

lemma reference_drive_creates: "\<forall>md media r. \<exists>i. fst (files_create reference_drive md media r) = Inr (Some i)"
  by (simp add: reference_drive_def)

lemma archive_parts: "[''default'', ''a.mp4''] = split_sep CHR ''/'' (os_path_join (folder archive_config) ''a.mp4'')"
  by (simp add: archive_config_def os_path_join_def)

lemma archive_folder_resolved:
  "ensure_folders reference_drive (Some ''root'') None [''default''] (fresh_storage archive_drive)
     = (Inr (Some ''fld''),
        \<lparr>api_cache = [cache_key (Some ''root'') ''default'' True \<mapsto> ''fld''],
         remote = archive_drive,
         trace = [ListCall (query_string (Some ''root'') ''default'' True)]\<rparr>)"
  by (simp add: Let_def bind_def ret_def raise_def
      get_id_once call_list_def mkdir_def call_create_def reference_drive_def fresh_storage_def
      archive_drive_def drive_matches_def new_id_def digit_char_def file_body_def
      query_string_def mime_clause_def folder_mime_def)

text \<open>
  \<^bold>\<open>C10\<close>, as the code has it. \<^verbatim>\<open>upload\<close> never looks the file up and never replaces one.
  On a remote whose calls do not fail, every upload returns without an exception: it
  resolves the folders of the path (listings restricted to folders, and folder creations),
  then asks the remote once to create a file named by the last part of the key under the
  folder that this resolution returned. Uploading the same key twice therefore issues two
  creations of a file with the same name, each under the parent its own resolution
  returned; when the first upload found every folder of the path (created none), the
  second resolves the same parent from the cache with no remote call, so that both files
  are created under the same parent.
\<close>

theorem upload_always_creates:
  fixes svc :: "'r drive_service"
  assumes lists: "\<forall>q r. \<exists>items. fst (files_list svc q r) = Inr items"
    and creates: "\<forall>md media r. \<exists>i. fst (files_create svc md media r) = Inr (Some i)"
    and media: "media_file_upload svc file = Inr m"
    and parts: "parts = split_sep CHR ''/'' (os_path_join (folder cfg) key)"
  shows "\<exists>p1 sa s1 i1 p2 sb s2 i2 ev1 ev2.
           ensure_folders svc (root_folder_id cfg) None (butlast parts) s = (Inr p1, sa)
         \<and> files_create svc (file_body (last parts) p1) (Some m) (remote sa) = (Inr (Some i1), remote s1)
         \<and> upload svc cfg file key s = (Inr (), s1)
         \<and> trace sa = trace s @ ev1
         \<and> trace s1 = trace sa @ [CreateCall (file_body (last parts) p1) (Some m)]
         \<and> ensure_folders svc (root_folder_id cfg) None (butlast parts) s1 = (Inr p2, sb)
         \<and> files_create svc (file_body (last parts) p2) (Some m) (remote sb) = (Inr (Some i2), remote s2)
         \<and> upload svc cfg file key s1 = (Inr (), s2)
         \<and> trace sb = trace s1 @ ev2
         \<and> trace s2 = trace sb @ [CreateCall (file_body (last parts) p2) (Some m)]
         \<and> (\<forall>e \<in> set (ev1 @ ev2). folder_event e)
         \<and> ((\<forall>e \<in> set ev1. \<not> is_create e) \<longrightarrow> sb = s1 \<and> p2 = p1)"
proof -
  let ?ef = "ensure_folders svc (root_folder_id cfg) None (butlast parts)"
  from uploadf_run[OF lists creates media, of cfg key s] obtain p1 sa s1 i1 where
    ef1: "?ef s = (Inr p1, sa)"
    and fc1: "files_create svc (file_body (last parts) p1) (Some m) (remote sa) = (Inr (Some i1), remote s1)"
    and up1: "uploadf svc cfg file key s = (Inr (), s1)"
    and tr1: "trace s1 = trace sa @ [CreateCall (file_body (last parts) p1) (Some m)]"
    and ca1: "api_cache s1 = api_cache sa"
    unfolding parts by blast
  from uploadf_run[OF lists creates media, of cfg key s1] obtain p2 sb s2 i2 where
    ef2: "?ef s1 = (Inr p2, sb)"
    and fc2: "files_create svc (file_body (last parts) p2) (Some m) (remote sb) = (Inr (Some i2), remote s2)"
    and up2: "uploadf svc cfg file key s1 = (Inr (), s2)"
    and tr2: "trace s2 = trace sb @ [CreateCall (file_body (last parts) p2) (Some m)]"
    unfolding parts by blast
  from ensure_folders_run[OF ef1] obtain ev1 where
    ev1: "trace sa = trace s @ ev1" "\<forall>e \<in> set ev1. folder_event e"
    and replay: "(\<forall>e \<in> set ev1. \<not> is_create e) \<longrightarrow>
              (\<forall>s2. api_cache sa \<subseteq>\<^sub>m api_cache s2 \<longrightarrow> ?ef s2 = (Inr p1, s2))"
    by blast
  from ensure_folders_run[OF ef2] obtain ev2 where
    ev2: "trace sb = trace s1 @ ev2" "\<forall>e \<in> set ev2. folder_event e"
    by blast
  have same: "sb = s1 \<and> p2 = p1" if "\<forall>e \<in> set ev1. \<not> is_create e"
  proof -
    have "api_cache sa \<subseteq>\<^sub>m api_cache s1" by (simp add: ca1)
    with replay that have "?ef s1 = (Inr p1, s1)" by blast
    with ef2 show ?thesis by simp
  qed
  show ?thesis
  proof (rule exI[of _ p1], rule exI[of _ sa], rule exI[of _ s1], rule exI[of _ i1],
      rule exI[of _ p2], rule exI[of _ sb], rule exI[of _ s2], rule exI[of _ i2],
      rule exI[of _ ev1], rule exI[of _ ev2], intro conjI impI)
    show "upload svc cfg file key s = (Inr (), s1)" by (simp add: upload_def up1)
    show "upload svc cfg file key s1 = (Inr (), s2)" by (simp add: upload_def up2)
    show "\<forall>e \<in> set (ev1 @ ev2). folder_event e"
      using ev1(2) ev2(2) by auto
    show "sb = s1" if "\<forall>e \<in> set ev1. \<not> is_create e" using same[OF that] by simp
    show "p2 = p1" if "\<forall>e \<in> set ev1. \<not> is_create e" using same[OF that] by simp
  qed (rule ef1 fc1 ev1(1) tr1 ef2 fc2 ev2(1) tr2)+
qed

theorem upload_always_creates_witness:
  "\<exists>sa s1 s2.
       ensure_folders reference_drive (Some ''root'') None [''default''] (fresh_storage archive_drive)
         = (Inr (Some ''fld''), sa)
     \<and> upload reference_drive archive_config ''tmp/a.mp4'' ''a.mp4'' (fresh_storage archive_drive) = (Inr (), s1)
     \<and> trace s1 = trace sa @ [CreateCall (file_body ''a.mp4'' (Some ''fld'')) (Some ''tmp/a.mp4'')]
     \<and> ensure_folders reference_drive (Some ''root'') None [''default''] s1 = (Inr (Some ''fld''), s1)
     \<and> upload reference_drive archive_config ''tmp/a.mp4'' ''a.mp4'' s1 = (Inr (), s2)
     \<and> trace s2 = trace s1 @ [CreateCall (file_body ''a.mp4'' (Some ''fld'')) (Some ''tmp/a.mp4'')]
     \<and> remote s2 = archive_drive @ [(''id1'', file_body ''a.mp4'' (Some ''fld'')),
                                    (''id2'', file_body ''a.mp4'' (Some ''fld''))]"
proof -
  have media: "media_file_upload reference_drive ''tmp/a.mp4'' = Inr ''tmp/a.mp4''"
    by (simp add: reference_drive_def)
  have root: "root_folder_id archive_config = Some ''root''"
    by (simp add: archive_config_def)
  let ?parts = "[''default'', ''a.mp4'']"
  let ?ef = "ensure_folders reference_drive (root_folder_id archive_config) None (butlast ?parts)"
  let ?s = "fresh_storage archive_drive"
  from upload_always_creates[OF reference_drive_lists reference_drive_creates media archive_parts, of ?s]
  obtain p1 sa s1 i1 p2 sb s2 i2 ev1 ev2 where
    ef1': "?ef ?s = (Inr p1, sa)"
    and fc1': "files_create reference_drive (file_body (last ?parts) p1) (Some ''tmp/a.mp4'') (remote sa) = (Inr (Some i1), remote s1)"
    and up1: "upload reference_drive archive_config ''tmp/a.mp4'' ''a.mp4'' ?s = (Inr (), s1)"
    and tra: "trace sa = trace ?s @ ev1"
    and tr1': "trace s1 = trace sa @ [CreateCall (file_body (last ?parts) p1) (Some ''tmp/a.mp4'')]"
    and ef2': "?ef s1 = (Inr p2, sb)"
    and fc2': "files_create reference_drive (file_body (last ?parts) p2) (Some ''tmp/a.mp4'') (remote sb) = (Inr (Some i2), remote s2)"
    and up2: "upload reference_drive archive_config ''tmp/a.mp4'' ''a.mp4'' s1 = (Inr (), s2)"
    and tr2': "trace s2 = trace sb @ [CreateCall (file_body (last ?parts) p2) (Some ''tmp/a.mp4'')]"
    and same: "(\<forall>e \<in> set ev1. \<not> is_create e) \<longrightarrow> sb = s1 \<and> p2 = p1"
    by (elim exE conjE) 
  have ef1: "ensure_folders reference_drive (Some ''root'') None [''default''] ?s = (Inr p1, sa)"
    using ef1' unfolding root by (simp del: ensure_folders.simps)
  have ef2: "ensure_folders reference_drive (Some ''root'') None [''default''] s1 = (Inr p2, sb)"
    using ef2' unfolding root by (simp del: ensure_folders.simps)
  have fc1: "files_create reference_drive (file_body ''a.mp4'' p1) (Some ''tmp/a.mp4'') (remote sa) = (Inr (Some i1), remote s1)"
    using fc1' by simp
  have fc2: "files_create reference_drive (file_body ''a.mp4'' p2) (Some ''tmp/a.mp4'') (remote sb) = (Inr (Some i2), remote s2)"
    using fc2' by simp
  have tr1: "trace s1 = trace sa @ [CreateCall (file_body ''a.mp4'' p1) (Some ''tmp/a.mp4'')]"
    using tr1' by simp
  have tr2: "trace s2 = trace sb @ [CreateCall (file_body ''a.mp4'' p2) (Some ''tmp/a.mp4'')]"
    using tr2' by simp
  from ef1 have p1: "p1 = Some ''fld''"
    and sa: "sa = \<lparr>api_cache = [cache_key (Some ''root'') ''default'' True \<mapsto> ''fld''],
         remote = archive_drive,
         trace = [ListCall (query_string (Some ''root'') ''default'' True)]\<rparr>"
    unfolding archive_folder_resolved by auto
  from tra have "ev1 = [ListCall (query_string (Some ''root'') ''default'' True)]"
    by (simp add: sa fresh_storage_def)
  with same have sb: "sb = s1" and p2: "p2 = p1" by simp_all
  from fc1 have r1: "remote s1 = archive_drive @ [(''id1'', file_body ''a.mp4'' (Some ''fld''))]"
    by (auto simp add: sa p1 reference_drive_def new_id_def archive_drive_def digit_char_def)
  from fc2 have r2: "remote s2 = archive_drive @ [(''id1'', file_body ''a.mp4'' (Some ''fld'')),
                                    (''id2'', file_body ''a.mp4'' (Some ''fld''))]"
    by (auto simp add: sb p2 p1 r1 reference_drive_def new_id_def archive_drive_def digit_char_def)
  show ?thesis
    apply (rule exI[of _ sa], rule exI[of _ s1], rule exI[of _ s2])
    using ef1 up1 tr1 ef2 up2 tr2 r2 unfolding sb p2 p1 by (simp del: ensure_folders.simps)
qed

text \<open>On the reference remote the two uploads run as follows when the folder exists, and
  when the first upload had to create it: there the second upload lists the new folder,
  finds it, and puts its file beside the first.\<close>

lemma upload_first_example:
  "upload reference_drive archive_config ''tmp/a.mp4'' ''a.mp4'' (fresh_storage archive_drive)
     = (Inr (),
        \<lparr>api_cache = [cache_key (Some ''root'') ''default'' True \<mapsto> ''fld''],
         remote = archive_drive @ [(''id1'', file_body ''a.mp4'' (Some ''fld''))],
         trace = [ListCall (query_string (Some ''root'') ''default'' True),
                  CreateCall (file_body ''a.mp4'' (Some ''fld'')) (Some ''tmp/a.mp4'')]\<rparr>)"
  by (simp add: upload_def uploadf_def archive_config_def os_path_join_def Let_def bind_def ret_def raise_def
      get_id_once call_list_def mkdir_def call_create_def reference_drive_def fresh_storage_def
      archive_drive_def drive_matches_def new_id_def digit_char_def file_body_def
      query_string_def mime_clause_def folder_mime_def)

lemma upload_second_example:
  "upload reference_drive archive_config ''tmp/a.mp4'' ''a.mp4''
        \<lparr>api_cache = [cache_key (Some ''root'') ''default'' True \<mapsto> ''fld''],
         remote = archive_drive @ [(''id1'', file_body ''a.mp4'' (Some ''fld''))],
         trace = [ListCall (query_string (Some ''root'') ''default'' True),
                  CreateCall (file_body ''a.mp4'' (Some ''fld'')) (Some ''tmp/a.mp4'')]\<rparr>
     = (Inr (),
        \<lparr>api_cache = [cache_key (Some ''root'') ''default'' True \<mapsto> ''fld''],
         remote = archive_drive @ [(''id1'', file_body ''a.mp4'' (Some ''fld'')),
                                   (''id2'', file_body ''a.mp4'' (Some ''fld''))],
         trace = [ListCall (query_string (Some ''root'') ''default'' True),
                  CreateCall (file_body ''a.mp4'' (Some ''fld'')) (Some ''tmp/a.mp4''),
                  CreateCall (file_body ''a.mp4'' (Some ''fld'')) (Some ''tmp/a.mp4'')]\<rparr>)"
  by (simp add: upload_def uploadf_def archive_config_def os_path_join_def Let_def bind_def ret_def raise_def
      get_id_once call_list_def mkdir_def call_create_def reference_drive_def
      archive_drive_def new_id_def digit_char_def file_body_def)

lemma upload_into_new_folder_example:
  "upload reference_drive archive_config ''tmp/a.mp4'' ''a.mp4'' (fresh_storage [])
     = (Inr (),
        \<lparr>api_cache = Map.empty,
         remote = [(''id0'', \<lparr>md_name = [''default''], md_mimeType = Some folder_mime, md_parents = [Some ''root'']\<rparr>),
                   (''id1'', file_body ''a.mp4'' (Some ''id0''))],
         trace = [ListCall (query_string (Some ''root'') ''default'' True),
                  CreateCall \<lparr>md_name = [''default''], md_mimeType = Some folder_mime, md_parents = [Some ''root'']\<rparr> None,
                  CreateCall (file_body ''a.mp4'' (Some ''id0'')) (Some ''tmp/a.mp4'')]\<rparr>)"
  by (simp add: upload_def uploadf_def archive_config_def os_path_join_def Let_def bind_def ret_def raise_def
      get_id_once call_list_def mkdir_def call_create_def reference_drive_def fresh_storage_def
      new_id_def digit_char_def file_body_def)

lemma upload_again_into_new_folder_example:
  "upload reference_drive archive_config ''tmp/a.mp4'' ''a.mp4''
        \<lparr>api_cache = Map.empty,
         remote = [(''id0'', \<lparr>md_name = [''default''], md_mimeType = Some folder_mime, md_parents = [Some ''root'']\<rparr>),
                   (''id1'', file_body ''a.mp4'' (Some ''id0''))],
         trace = []\<rparr>
     = (Inr (),
        \<lparr>api_cache = [cache_key (Some ''root'') ''default'' True \<mapsto> ''id0''],
         remote = [(''id0'', \<lparr>md_name = [''default''], md_mimeType = Some folder_mime, md_parents = [Some ''root'']\<rparr>),
                   (''id1'', file_body ''a.mp4'' (Some ''id0'')),
                   (''id2'', file_body ''a.mp4'' (Some ''id0''))],
         trace = [ListCall (query_string (Some ''root'') ''default'' True),
                  CreateCall (file_body ''a.mp4'' (Some ''id0'')) (Some ''tmp/a.mp4'')]\<rparr>)"
  by (simp add: upload_def uploadf_def archive_config_def os_path_join_def Let_def bind_def ret_def raise_def
      get_id_once call_list_def mkdir_def call_create_def reference_drive_def
      drive_matches_def new_id_def digit_char_def file_body_def
      query_string_def mime_clause_def folder_mime_def)

text \<open>
  \<^bold>\<open>C10\<close> as stated, with both files under the same parent whenever the same key is
  uploaded twice, fails when the first upload created the folder and the listing of the
  remote does not show it yet: the created id is not cached, the second upload lists again,
  finds nothing and creates a second folder, and the two files of the same name end under
  the two different folders \<^verbatim>\<open>id0\<close> and \<^verbatim>\<open>id2\<close>.
\<close>

lemma lagging_first_upload:
  "upload lagging_drive archive_config ''tmp/a.mp4'' ''a.mp4'' (fresh_storage [])
     = (Inr (),
        \<lparr>api_cache = Map.empty,
         remote = [(''id0'', \<lparr>md_name = [''default''], md_mimeType = Some folder_mime, md_parents = [Some ''root'']\<rparr>),
                   (''id1'', file_body ''a.mp4'' (Some ''id0''))],
         trace = [ListCall (query_string (Some ''root'') ''default'' True),
                  CreateCall \<lparr>md_name = [''default''], md_mimeType = Some folder_mime, md_parents = [Some ''root'']\<rparr> None,
                  CreateCall (file_body ''a.mp4'' (Some ''id0'')) (Some ''tmp/a.mp4'')]\<rparr>)"
  by (simp add: upload_def uploadf_def archive_config_def os_path_join_def Let_def bind_def ret_def raise_def
      get_id_once call_list_def mkdir_def call_create_def lagging_drive_def reference_drive_def fresh_storage_def
      new_id_def digit_char_def file_body_def)

lemma lagging_second_upload:
  "upload lagging_drive archive_config ''tmp/a.mp4'' ''a.mp4''
        \<lparr>api_cache = Map.empty,
         remote = [(''id0'', \<lparr>md_name = [''default''], md_mimeType = Some folder_mime, md_parents = [Some ''root'']\<rparr>),
                   (''id1'', file_body ''a.mp4'' (Some ''id0''))],
         trace = [ListCall (query_string (Some ''root'') ''default'' True),
                  CreateCall \<lparr>md_name = [''default''], md_mimeType = Some folder_mime, md_parents = [Some ''root'']\<rparr> None,
                  CreateCall (file_body ''a.mp4'' (Some ''id0'')) (Some ''tmp/a.mp4'')]\<rparr>
     = (Inr (),
        \<lparr>api_cache = Map.empty,
         remote = [(''id0'', \<lparr>md_name = [''default''], md_mimeType = Some folder_mime, md_parents = [Some ''root'']\<rparr>),
                   (''id1'', file_body ''a.mp4'' (Some ''id0'')),
                   (''id2'', \<lparr>md_name = [''default''], md_mimeType = Some folder_mime, md_parents = [Some ''root'']\<rparr>),
                   (''id3'', file_body ''a.mp4'' (Some ''id2''))],
         trace = [ListCall (query_string (Some ''root'') ''default'' True),
                  CreateCall \<lparr>md_name = [''default''], md_mimeType = Some folder_mime, md_parents = [Some ''root'']\<rparr> None,
                  CreateCall (file_body ''a.mp4'' (Some ''id0'')) (Some ''tmp/a.mp4''),
                  ListCall (query_string (Some ''root'') ''default'' True),
                  CreateCall \<lparr>md_name = [''default''], md_mimeType = Some folder_mime, md_parents = [Some ''root'']\<rparr> None,
                  CreateCall (file_body ''a.mp4'' (Some ''id2'')) (Some ''tmp/a.mp4'')]\<rparr>)"
  by (simp add: upload_def uploadf_def archive_config_def os_path_join_def Let_def bind_def ret_def raise_def
      get_id_once call_list_def mkdir_def call_create_def lagging_drive_def reference_drive_def
      new_id_def digit_char_def file_body_def)

theorem second_upload_under_another_parent:
  "fst (upload lagging_drive archive_config ''tmp/a.mp4'' ''a.mp4'' (fresh_storage [])) = Inr ()
   \<and> fst (upload lagging_drive archive_config ''tmp/a.mp4'' ''a.mp4''
           (snd (upload lagging_drive archive_config ''tmp/a.mp4'' ''a.mp4'' (fresh_storage [])))) = Inr ()
   \<and> filter (\<lambda>f. md_name (snd f) = [''a.mp4''])
        (remote (snd (upload lagging_drive archive_config ''tmp/a.mp4'' ''a.mp4''
           (snd (upload lagging_drive archive_config ''tmp/a.mp4'' ''a.mp4'' (fresh_storage []))))))
     = [(''id1'', file_body ''a.mp4'' (Some ''id0'')), (''id3'', file_body ''a.mp4'' (Some ''id2''))]"
  by (simp add: lagging_first_upload[unfolded file_body_def] lagging_second_upload[unfolded file_body_def] file_body_def)

section \<open>Properties of the archivers\<close>

subsection \<open>Exceptions that reach the caller of \<^verbatim>\<open>download\<close>\<close>

text \<open>\<^verbatim>\<open>TiktokArchiver.download\<close> never raises: whatever its collaborators do, it returns
  \<^verbatim>\<open>False\<close> or an \<^verbatim>\<open>ArchiveResult\<close>.\<close>

lemma tiktok_download_never_raises:
  "\<exists>res w'. tiktok_download a td url check_if_exists w = (Inr res, w')"
proof (cases "contains ''tiktok.com'' url")
  case False
  then show ?thesis by (simp add: tiktok_download_def ret_def)
next
  case True
  obtain res w1 where body: "tiktok_try a td url check_if_exists w = (res, w1)"
    by (cases "tiktok_try a td url check_if_exists w")
  show ?thesis
  proof (cases res)
    case (Inr ok)
    with True body show ?thesis by (simp add: tiktok_download_def try_except_def)
  next
    case (Inl e)
    with True body show ?thesis
      by (simp add: tiktok_download_def try_except_def anything_def ret_def)
  qed
qed

text \<open>
  \<^bold>\<open>C1\<close> does not hold of \<^verbatim>\<open>YoutubeDLArchiver.download\<close>. Only the first
  \<^verbatim>\<open>extract_info\<close> and \<^verbatim>\<open>get_thumbnails\<close> are inside a \<^verbatim>\<open>try\<close>; the second
  \<^verbatim>\<open>extract_info\<close>, the upload, the storage lookups, the hash, the screenshot and
  \<^verbatim>\<open>os.remove\<close> are not. With an extractor whose probe succeeds and whose download
  then fails, the \<^verbatim>\<open>DownloadError\<close> reaches the caller.
\<close>

theorem youtubedl_download_raises:
  "youtubedl_download demo_archiver flaky_ydl None ''https://www.youtube.com/watch?v=vid1'' False empty_world
     = (Inl (DownloadError ''connection reset''), empty_world)"
  by (simp add: youtubedl_download_def youtubedl_archive_def youtubedl_probe_def use_cookie_def
      twitter_check_def youtubedl_fetch_def try_except_def bind_def ret_def writing_def Let_def
      demo_archiver_def flaky_ydl_def demo_ydl_def demo_video_def empty_world_def truthy_def)

subsection \<open>The steps of a download that runs to its end\<close>


















subsection \<open>A key that the storage already has\<close>











subsection \<open>The local file at the end of a download\<close>






end
